theory Spec2Isabelle
  imports Main "HOL-Library.Multiset"
begin

section \<open>Client reconciliation layer: \<open>notificationReducer\<close>\<close>

text \<open>
  Source: \<^verbatim>\<open>src/frontend/src/context/NotificationContext.js\<close>, lines 32-129.
  A notification held by the client is a JS object; the fields the reducer and the
  server's schema name are kept. \<open>isRead\<close> is a boolean (schema default \<open>false\<close>).
\<close>

record cnote =
  cn_id :: string
  cn_userId :: string
  cn_type :: string
  cn_message :: string
  cn_priority :: string
  cn_isRead :: bool
  cn_timestamp :: string

text \<open>
  The payload of a pushed \<open>newNotification\<close>: \<open>id\<close> and \<open>timestamp\<close> may be absent
  (\<open>None\<close>) or empty, both falsy for the JS operator \<open>||\<close>.
\<close>

record push_payload =
  pp_id :: "string option"
  pp_userId :: string
  pp_type :: string
  pp_message :: string
  pp_priority :: string
  pp_isRead :: bool
  pp_timestamp :: "string option"

text \<open>\<open>a || b\<close> on a string-valued field: the empty string and a missing value are falsy.\<close>

fun js_or :: "string option \<Rightarrow> string \<Rightarrow> string" where
  "js_or None d = d"
| "js_or (Some s) d = (if s = [] then d else s)"

text \<open>The two clock readings the reducer takes: \<open>Date.now().toString()\<close> and \<open>new Date()\<close>.\<close>

record client_clock =
  Date_now_toString :: string
  new_Date :: string

datatype action =
    SET_NOTIFICATIONS "cnote list"
  | ADD_NOTIFICATION push_payload
  | MARK_AS_READ string
  | MARK_ALL_AS_READ
  | DELETE_NOTIFICATION string
  | CLEAR_ALL
  | SET_LOADING bool
  | SET_ERROR "string option"
  | UPDATE_UNREAD_COUNT int
  | UNKNOWN_ACTION

record nstate =
  notifications :: "cnote list"
  unreadCount :: int
  loading :: bool
  error :: "string option"
  connected :: bool

definition initialState :: nstate where
  "initialState = \<lparr>notifications = [], unreadCount = 0, loading = False,
                    error = None, connected = False\<rparr>"

text \<open>\<open>xs.filter(n => !n.isRead).length\<close>\<close>

definition unread_length :: "cnote list \<Rightarrow> int" where
  "unread_length xs = int (length (filter (\<lambda>n. \<not> cn_isRead n) xs))"

definition newNotification :: "client_clock \<Rightarrow> push_payload \<Rightarrow> cnote" where
  "newNotification clk p =
     \<lparr>cn_id = js_or (pp_id p) (Date_now_toString clk),
      cn_userId = pp_userId p,
      cn_type = pp_type p,
      cn_message = pp_message p,
      cn_priority = pp_priority p,
      cn_isRead = False,
      cn_timestamp = js_or (pp_timestamp p) (new_Date clk)\<rparr>"

fun notificationReducer :: "client_clock \<Rightarrow> nstate \<Rightarrow> action \<Rightarrow> nstate" where
  "notificationReducer clk state (SET_NOTIFICATIONS payload) =
     state\<lparr>notifications := payload,
           unreadCount := unread_length payload,
           loading := False,
           error := None\<rparr>"
| "notificationReducer clk state (ADD_NOTIFICATION payload) =
     state\<lparr>notifications := newNotification clk payload # notifications state,
           unreadCount := unreadCount state + 1\<rparr>"
| "notificationReducer clk state (MARK_AS_READ i) =
     (let updatedNotifications =
            map (\<lambda>n. if cn_id n = i then n\<lparr>cn_isRead := True\<rparr> else n) (notifications state)
      in state\<lparr>notifications := updatedNotifications,
               unreadCount := unread_length updatedNotifications\<rparr>)"
| "notificationReducer clk state MARK_ALL_AS_READ =
     state\<lparr>notifications := map (\<lambda>n. n\<lparr>cn_isRead := True\<rparr>) (notifications state),
           unreadCount := 0\<rparr>"
| "notificationReducer clk state (DELETE_NOTIFICATION i) =
     (let filteredNotifications = filter (\<lambda>n. cn_id n \<noteq> i) (notifications state)
      in state\<lparr>notifications := filteredNotifications,
               unreadCount := unread_length filteredNotifications\<rparr>)"
| "notificationReducer clk state CLEAR_ALL =
     state\<lparr>notifications := [], unreadCount := 0\<rparr>"
| "notificationReducer clk state (SET_LOADING b) = state\<lparr>loading := b\<rparr>"
| "notificationReducer clk state (SET_ERROR e) = state\<lparr>error := e, loading := False\<rparr>"
| "notificationReducer clk state (UPDATE_UNREAD_COUNT c) = state\<lparr>unreadCount := c\<rparr>"
| "notificationReducer clk state UNKNOWN_ACTION = state"

text \<open>The unread count is the derived count over the list.\<close>

definition count_derived :: "nstate \<Rightarrow> bool" where
  "count_derived s = (unreadCount s = unread_length (notifications s))"

text \<open>Concrete data used where the reducer is run on explicit inputs.\<close>

definition clk0 :: client_clock where
  "clk0 = \<lparr>Date_now_toString = ''1700000000000'', new_Date = ''2023-11-14T22:13:20.000Z''\<rparr>"

definition push1 :: push_payload where
  "push1 = \<lparr>pp_id = Some ''n1'', pp_userId = ''alice'', pp_type = ''vote'',
            pp_message = ''bob voted on your poll \"Lunch\"'', pp_priority = ''low'',
            pp_isRead = False, pp_timestamp = Some ''2023-11-14T22:13:19.000Z''\<rparr>"

definition fetched0 :: cnote where
  "fetched0 = \<lparr>cn_id = ''n0'', cn_userId = ''alice'', cn_type = ''comment'',
               cn_message = ''carol commented on your poll \"Lunch\"'', cn_priority = ''medium'',
               cn_isRead = False, cn_timestamp = ''2023-11-14T22:00:00.000Z''\<rparr>"

text \<open>A state whose stored counter is not the count over its list.\<close>

definition drifted :: nstate where
  "drifted = initialState\<lparr>notifications := [fetched0], unreadCount := 7\<rparr>"

section \<open>Server data model\<close>

text \<open>
  Source: \<^verbatim>\<open>src/backend/server.js\<close>. The Mongoose schemas (lines 303-392) become records;
  a collection is the list of its documents in insertion order. \<open>Date\<close> values are
  milliseconds since the epoch. Fields that none of the handlers below reads or writes
  (passwords, profile data, \<open>show_results\<close>, the \<open>createdAt\<close> of polls and votes) are
  left out.
\<close>

record jwt_user =
  u_id :: string
  u_username :: string
  u_email :: string

record user_doc =
  a_id :: string
  a_polls_created :: "string list"
  a_polls_voted :: "string list"

record poll_option =
  o_id :: string
  o_text :: string
  o_votes :: nat

record poll =
  p_id :: string
  p_title :: string
  p_description :: string
  p_options :: "poll_option list"
  p_status :: string
  p_ends_at :: "nat option"
  p_allow_multiple_votes :: bool
  p_total_votes :: nat
  p_category :: string
  p_comments_count :: nat
  p_manual_status_override :: bool
  p_creator :: string

record vote =
  v_id :: string
  v_poll_id :: string
  v_option_id :: string
  v_voter_email :: string
  v_user :: string

record comment =
  c_id :: string
  c_poll_id :: string
  c_content :: string
  c_parent_comment_id :: "string option"
  c_author_email :: string
  c_author_username :: string
  c_likes :: nat
  c_liked_by :: "string list"
  c_user :: string
  c_replies :: "string list"
  c_createdAt :: nat

text \<open>
  The \<open>data\<close> object handed to \<open>createNotification\<close>; a field the caller leaves out
  is \<open>None\<close> (\<open>undefined\<close>).
\<close>

record ndata =
  d_pollId :: "string option"
  d_commentId :: "string option"
  d_voterName :: "string option"
  d_commenterName :: "string option"
  d_replierName :: "string option"
  d_likerName :: "string option"
  d_pollTitle :: "string option"
  d_reason :: "string option"
  d_message :: "string option"

definition no_data :: ndata where
  "no_data = \<lparr>d_pollId = None, d_commentId = None, d_voterName = None,
               d_commenterName = None, d_replierName = None, d_likerName = None,
               d_pollTitle = None, d_reason = None, d_message = None\<rparr>"

record notification =
  n_id :: string
  n_userId :: string
  n_type :: string
  n_message :: string
  n_data :: ndata
  n_isRead :: bool
  n_priority :: string
  n_timestamp :: nat
  n_createdAt :: nat

text \<open>What \<open>GET /api/notifications\<close> returns for one record: the record and the alias \<open>read\<close>.\<close>

record notification_view = notification +
  read :: bool

text \<open>
  A connection (socket.io \<open>socket\<close>): its id, \<open>socket.user?.id\<close> (\<open>None\<close> when the verified
  token carries no id) and the set of rooms it is in.
\<close>

record socket =
  sock_id :: string
  sock_user_id :: "string option"
  sock_rooms :: "string set"

datatype target = Room string | Broadcast

datatype payload =
    PNotification notification
  | PPoll poll
  | PComment comment
  | PNotificationRead string
  | PCommentLikeUpdate string nat bool string

text \<open>
  The trace records, in the order they happen, each completed append to the notification
  collection and each dispatch on the transport, the latter with the sockets that are in
  the target room at that moment.
\<close>

datatype effect =
    Persisted notification
  | Emitted target string payload "string list"

record server =
  polls :: "poll list"
  votes :: "vote list"
  comments :: "comment list"
  users :: "user_doc list"
  notifs :: "notification list"
  conns :: "socket list"
  trace :: "effect list"

datatype body =
    Error string
  | Message string
  | MessagePoll string poll
  | PollBody poll
  | CommentBody comment
  | LikeBody string nat bool
  | MessageNotification string notification
  | NotificationList "notification_view list"

type_synonym response = "nat \<times> body"

section \<open>Store and transport primitives\<close>

text \<open>
  \<open>doc.save()\<close> of a new document: Mongoose validates it against the schema and the unique
  index on \<open>id\<close> rejects a second document with the same id; \<open>None\<close> is the rejected
  promise.
\<close>

definition insert_doc :: "('a \<Rightarrow> bool) \<Rightarrow> ('a \<Rightarrow> string) \<Rightarrow> 'a \<Rightarrow> 'a list \<Rightarrow> 'a list option" where
  "insert_doc valid key doc xs =
     (if valid doc \<and> key doc \<notin> set (map key xs) then Some (xs @ [doc]) else None)"

text \<open>\<open>Model.findOneAndUpdate(filter, update, {new: true})\<close>: the first match is updated.\<close>

fun findOneAndUpdate :: "('a \<Rightarrow> bool) \<Rightarrow> ('a \<Rightarrow> 'a) \<Rightarrow> 'a list \<Rightarrow> 'a option \<times> 'a list" where
  "findOneAndUpdate flt upd [] = (None, [])"
| "findOneAndUpdate flt upd (x # xs) =
     (if flt x then (Some (upd x), upd x # xs)
      else (case findOneAndUpdate flt upd xs of (r, ys) \<Rightarrow> (r, x # ys)))"

text \<open>
  \<open>doc.save()\<close> of a document that \<open>findOne\<close> read from the collection and the handler
  modified: the document found, the first with that id, is written back.
\<close>

definition replace_doc :: "('a \<Rightarrow> string) \<Rightarrow> 'a \<Rightarrow> 'a list \<Rightarrow> 'a list" where
  "replace_doc key doc xs = snd (findOneAndUpdate (\<lambda>x. key x = key doc) (\<lambda>_. doc) xs)"

definition poll_valid :: "poll \<Rightarrow> bool" where
  "poll_valid p \<longleftrightarrow>
     p_id p \<noteq> [] \<and> p_title p \<noteq> [] \<and> p_creator p \<noteq> [] \<and>
     (\<forall>o' \<in> set (p_options p). o_id o' \<noteq> [] \<and> o_text o' \<noteq> []) \<and>
     p_status p \<in> {''active'', ''closed'', ''draft''} \<and>
     p_category p \<in> {''general'', ''technology'', ''politics'', ''entertainment'',
                     ''sports'', ''business'', ''other''}"

definition vote_valid :: "vote \<Rightarrow> bool" where
  "vote_valid v \<longleftrightarrow>
     v_id v \<noteq> [] \<and> v_poll_id v \<noteq> [] \<and> v_option_id v \<noteq> [] \<and>
     v_voter_email v \<noteq> [] \<and> v_user v \<noteq> []"

definition comment_valid :: "comment \<Rightarrow> bool" where
  "comment_valid c \<longleftrightarrow>
     c_id c \<noteq> [] \<and> c_poll_id c \<noteq> [] \<and> c_content c \<noteq> [] \<and>
     c_author_email c \<noteq> [] \<and> c_author_username c \<noteq> [] \<and> c_user c \<noteq> []"

definition notification_valid :: "notification \<Rightarrow> bool" where
  "notification_valid n \<longleftrightarrow>
     n_id n \<noteq> [] \<and> n_userId n \<noteq> [] \<and> n_message n \<noteq> [] \<and>
     n_type n \<in> {''vote'', ''comment'', ''reply'', ''comment_like'', ''poll_created'',
                 ''poll_closed'', ''system''} \<and>
     n_priority n \<in> {''low'', ''medium'', ''high''}"

text \<open>The sockets in a room, as the adapter's \<open>rooms.get(room)\<close> gives them.\<close>

definition room_sockets :: "server \<Rightarrow> string \<Rightarrow> string list" where
  "room_sockets st room = map sock_id (filter (\<lambda>s. room \<in> sock_rooms s) (conns st))"

text \<open>\<open>io.to(room).emit(name, payload)\<close> and \<open>io.emit(name, payload)\<close>.\<close>

definition io_to_emit :: "string \<Rightarrow> string \<Rightarrow> payload \<Rightarrow> server \<Rightarrow> server" where
  "io_to_emit room name pl st =
     st\<lparr>trace := trace st @ [Emitted (Room room) name pl (room_sockets st room)]\<rparr>"

definition io_emit :: "string \<Rightarrow> payload \<Rightarrow> server \<Rightarrow> server" where
  "io_emit name pl st =
     st\<lparr>trace := trace st @ [Emitted Broadcast name pl (map sock_id (conns st))]\<rparr>"

text \<open>Template interpolation \<open>${x}\<close> of a possibly missing string.\<close>

fun interp :: "string option \<Rightarrow> string" where
  "interp None = ''undefined''"
| "interp (Some s) = s"

text \<open>JS truthiness of a possibly missing string.\<close>

fun truthy :: "string option \<Rightarrow> bool" where
  "truthy None = False"
| "truthy (Some s) = (s \<noteq> [])"

section \<open>Notification service\<close>

text \<open>\<open>formatNotificationMessage\<close>, lines 1658-1680.\<close>

definition formatNotificationMessage :: "string \<Rightarrow> ndata \<Rightarrow> string" where
  "formatNotificationMessage type data =
     (if type = ''vote'' then
        js_or (d_voterName data) ''Someone'' @ '' voted on your poll \"'' @ interp (d_pollTitle data) @ ''\"''
      else if type = ''comment'' then
        js_or (d_commenterName data) ''Someone'' @ '' commented on your poll \"'' @ interp (d_pollTitle data) @ ''\"''
      else if type = ''reply'' then
        js_or (d_replierName data) ''Someone'' @ '' replied to your comment on \"'' @ interp (d_pollTitle data) @ ''\"''
      else if type = ''comment_like'' then
        js_or (d_likerName data) ''Someone'' @ '' liked your comment on \"'' @ interp (d_pollTitle data) @ ''\"''
      else if type = ''poll_created'' then
        ''Your poll \"'' @ interp (d_pollTitle data) @ ''\" has been created successfully''
      else if type = ''poll_closed'' then
        (if d_reason data = Some ''automatic_closure'' then
           ''Your poll \"'' @ interp (d_pollTitle data) @
           ''\" has been automatically closed as it reached its end date. Final results are now available.''
         else
           ''Your poll \"'' @ interp (d_pollTitle data) @
           ''\" has been closed. Final results are now available.'')
      else if type = ''system'' then js_or (d_message data) ''System notification''
      else js_or (d_message data) ''New notification'')"

text \<open>\<open>getNotificationPriority\<close> of the server, lines 1682-1696.\<close>

definition getNotificationPriority :: "string \<Rightarrow> string" where
  "getNotificationPriority type =
     (if type = ''system'' then ''high''
      else if type = ''reply'' \<or> type = ''comment'' \<or> type = ''poll_closed'' then ''medium''
      else ''low'')"

text \<open>
  \<open>NotificationService.getNotificationPriority\<close> of the client,
  \<^verbatim>\<open>src/frontend/src/services/NotificationService.js\<close> lines 55-74, over the constants
  \<open>NOTIFICATION_TYPES\<close>.
\<close>

definition client_getNotificationPriority :: "string \<Rightarrow> string" where
  "client_getNotificationPriority type =
     (if type = ''system'' then ''high''
      else if type = ''reply'' then ''medium''
      else if type = ''comment'' then ''medium''
      else if type = ''vote'' then ''low''
      else if type = ''comment_like'' then ''low''
      else if type = ''poll_created'' then ''low''
      else if type = ''poll_closed'' then ''medium''
      else ''low'')"

text \<open>
  What the environment gives one call of \<open>createNotification\<close>: the value of
  \<open>generateId()\<close>, the clock, and whether the database accepts the write (a lost
  connection rejects it whatever the document is).
\<close>

record nenv =
  gen_id :: string
  now :: nat
  db_accepts :: bool

text \<open>The schema drops the keys of \<open>data\<close> it does not declare and defaults the names to \<open>''\<close>.\<close>

fun default_empty :: "string option \<Rightarrow> string option" where
  "default_empty None = Some []"
| "default_empty (Some s) = Some s"

definition schema_data :: "ndata \<Rightarrow> ndata" where
  "schema_data d =
     \<lparr>d_pollId = d_pollId d, d_commentId = d_commentId d,
      d_voterName = default_empty (d_voterName d),
      d_commenterName = default_empty (d_commenterName d),
      d_replierName = default_empty (d_replierName d),
      d_likerName = default_empty (d_likerName d),
      d_pollTitle = default_empty (d_pollTitle d),
      d_reason = None, d_message = None\<rparr>"

definition new_Notification :: "nenv \<Rightarrow> string \<Rightarrow> ndata \<Rightarrow> string \<Rightarrow> notification" where
  "new_Notification env type data userId =
     \<lparr>n_id = gen_id env,
      n_userId = userId,
      n_type = type,
      n_message = formatNotificationMessage type data,
      n_data = schema_data data,
      n_isRead = False,
      n_priority = getNotificationPriority type,
      n_timestamp = now env,
      n_createdAt = now env\<rparr>"

text \<open>\<open>await notification.save()\<close>: \<open>None\<close> is the rejected promise.\<close>

definition Notification_save :: "nenv \<Rightarrow> notification \<Rightarrow> server \<Rightarrow> server option" where
  "Notification_save env n st =
     (if db_accepts env then
        (case insert_doc notification_valid n_id n (notifs st) of
           None \<Rightarrow> None
         | Some ns \<Rightarrow> Some (st\<lparr>notifs := ns, trace := trace st @ [Persisted n]\<rparr>))
      else None)"

text \<open>
  \<open>createNotification\<close>, lines 1621-1656. The \<open>catch\<close> turns a rejected save into the
  result \<open>null\<close> (\<open>None\<close>); the function never throws.
\<close>

definition createNotification ::
  "nenv \<Rightarrow> string \<Rightarrow> ndata \<Rightarrow> string \<Rightarrow> server \<Rightarrow> notification option \<times> server" where
  "createNotification env type data userId st =
     (let notification = new_Notification env type data userId in
      case Notification_save env notification st of
        None \<Rightarrow> (None, st)
      | Some st1 \<Rightarrow>
          (Some notification,
           io_to_emit (''user_'' @ userId) ''newNotification'' (PNotification notification) st1))"

section \<open>Request handlers that trigger notifications\<close>

text \<open>
  Each handler takes the verified token's payload (\<open>req.user\<close>), the request and the
  values the environment supplies (generated ids, the clock), and returns the HTTP
  response with the state it leaves. A rejected write of a new poll, vote or comment
  throws into the handler's \<open>catch\<close>, which answers 500.
\<close>

definition internal_error :: response where
  "internal_error = (500, Error ''Internal server error'')"

text \<open>
  Strings are the UTF-8 bytes of the JS strings. \<open>white_space\<close> lists the encodings of the
  code points \<open>String.prototype.trim\<close> removes: the white space U+0009, U+000B, U+000C,
  U+0020, U+00A0, U+FEFF and the space separators U+1680, U+2000 to U+200A, U+202F, U+205F,
  U+3000, and the line terminators U+000A, U+000D, U+2028, U+2029.
\<close>

definition white_space :: "string list" where
  "white_space =
     [[CHR 0x09], [CHR 0x0A], [CHR 0x0B], [CHR 0x0C], [CHR 0x0D], [CHR 0x20],
      [CHR 0xC2, CHR 0xA0],
      [CHR 0xE1, CHR 0x9A, CHR 0x80],
      [CHR 0xE2, CHR 0x80, CHR 0x80], [CHR 0xE2, CHR 0x80, CHR 0x81],
      [CHR 0xE2, CHR 0x80, CHR 0x82], [CHR 0xE2, CHR 0x80, CHR 0x83],
      [CHR 0xE2, CHR 0x80, CHR 0x84], [CHR 0xE2, CHR 0x80, CHR 0x85],
      [CHR 0xE2, CHR 0x80, CHR 0x86], [CHR 0xE2, CHR 0x80, CHR 0x87],
      [CHR 0xE2, CHR 0x80, CHR 0x88], [CHR 0xE2, CHR 0x80, CHR 0x89],
      [CHR 0xE2, CHR 0x80, CHR 0x8A],
      [CHR 0xE2, CHR 0x80, CHR 0xA8], [CHR 0xE2, CHR 0x80, CHR 0xA9],
      [CHR 0xE2, CHR 0x80, CHR 0xAF],
      [CHR 0xE2, CHR 0x81, CHR 0x9F],
      [CHR 0xE3, CHR 0x80, CHR 0x80],
      [CHR 0xEF, CHR 0xBB, CHR 0xBF]]"

text \<open>The first of the sequences \<open>ws\<close> that the string starts with.\<close>

definition ws_match :: "string list \<Rightarrow> string \<Rightarrow> string option" where
  "ws_match ws s = find (\<lambda>w. w \<noteq> [] \<and> take (length w) s = w) ws"

text \<open>Taking such sequences off the front for as long as there is one.\<close>

function strip_leading :: "string list \<Rightarrow> string \<Rightarrow> string" where
  "strip_leading ws s =
     (case ws_match ws s of
        None \<Rightarrow> s
      | Some w \<Rightarrow> strip_leading ws (drop (length w) s))"
  by pat_completeness auto
termination
proof (relation "measure (\<lambda>(ws, s). length s)")
  show "wf (measure (\<lambda>(ws, s). length s))" by simp
next
  fix ws :: "string list" and s w :: string
  assume "ws_match ws s = Some w"
  then have "w \<noteq> []" and "take (length w) s = w"
    by (auto simp: ws_match_def find_Some_iff)
  then have "s \<noteq> []" by auto
  with \<open>w \<noteq> []\<close> show "((ws, drop (length w) s), (ws, s)) \<in> measure (\<lambda>(ws, s). length s)"
    by simp
qed

declare strip_leading.simps [simp del]

text \<open>
  \<open>s.trim()\<close>: white space is taken off the front and, on the reversed string with the
  reversed sequences, off the end.
\<close>

definition trim :: "string \<Rightarrow> string" where
  "trim s = rev (strip_leading (map rev white_space) (rev (strip_leading white_space s)))"

subsection \<open>\<open>POST /api/polls\<close>, lines 892-959\<close>

text \<open>
  An element of \<open>req.body.options\<close>: a string, an object, or anything else. \<open>b_options\<close>
  is that array, \<open>None\<close> when the body has none; \<open>b_ends_at\<close> is the date the body's
  \<open>ends_at\<close> denotes.
\<close>

datatype opt_in =
    OptString string
  | OptObject "string option" "string option" "nat option"
  | OptOther

record poll_body =
  b_title :: "string option"
  b_description :: "string option"
  b_options :: "opt_in list option"
  b_category :: "string option"
  b_status :: "string option"
  b_ends_at :: "nat option"
  b_allow_multiple_votes :: bool

text \<open>One step of the \<open>map\<close>; \<open>g\<close> is what \<open>generateId()\<close> returns at this element.\<close>

fun normalize_option :: "string \<Rightarrow> opt_in \<Rightarrow> poll_option option" where
  "normalize_option g (OptString s) = Some \<lparr>o_id = g, o_text = s, o_votes = 0\<rparr>"
| "normalize_option g (OptObject i t v) =
     Some \<lparr>o_id = js_or i g, o_text = js_or t [],
           o_votes = (case v of None \<Rightarrow> 0 | Some k \<Rightarrow> k)\<rparr>"
| "normalize_option g OptOther = None"

definition normalizedOptions :: "(nat \<Rightarrow> string) \<Rightarrow> opt_in list \<Rightarrow> poll_option list" where
  "normalizedOptions fresh opts =
     List.map_filter (\<lambda>(k, opt). normalize_option (fresh k) opt) (enumerate 0 opts)"

definition status_or_active :: "string option \<Rightarrow> string" where
  "status_or_active status =
     (case status of
        Some s \<Rightarrow> if s \<in> {''active'', ''closed'', ''draft''} then s else ''active''
      | None \<Rightarrow> ''active'')"

definition push_polls_created :: "string \<Rightarrow> string \<Rightarrow> user_doc list \<Rightarrow> user_doc list" where
  "push_polls_created uid pid us =
     snd (findOneAndUpdate (\<lambda>a. a_id a = uid)
            (\<lambda>a. a\<lparr>a_polls_created := a_polls_created a @ [pid]\<rparr>) us)"

definition post_polls ::
  "(nat \<Rightarrow> string) \<Rightarrow> string \<Rightarrow> nenv \<Rightarrow> jwt_user \<Rightarrow> poll_body \<Rightarrow> server \<Rightarrow> response \<times> server" where
  "post_polls fresh new_id env user b st =
     (case b_options b of
        None \<Rightarrow> ((400, Error ''Title and at least 2 options are required''), st)
      | Some options \<Rightarrow>
     (if \<not> truthy (b_title b) \<or> length options < 2 then
       ((400, Error ''Title and at least 2 options are required''), st)
     else
       let opts = normalizedOptions fresh options in
       if length opts < 2 \<or> (\<exists>o' \<in> set opts. o_text o' = [] \<or> trim (o_text o') = []) then
         ((400, Error ''Provide at least 2 valid options with non-empty text''), st)
       else
         let poll = \<lparr>p_id = new_id,
                     p_title = js_or (b_title b) [],
                     p_description = js_or (b_description b) [],
                     p_options = opts,
                     p_status = status_or_active (b_status b),
                     p_ends_at = b_ends_at b,
                     p_allow_multiple_votes = b_allow_multiple_votes b,
                     p_total_votes = 0,
                     p_category = js_or (b_category b) ''general'',
                     p_comments_count = 0,
                     p_manual_status_override = False,
                     p_creator = u_id user\<rparr> in
         (case insert_doc poll_valid p_id poll (polls st) of
           None \<Rightarrow> (internal_error, st)
         | Some ps \<Rightarrow>
             let st1 = st\<lparr>polls := ps,
                          users := push_polls_created (u_id user) (p_id poll) (users st)\<rparr>;
                 st2 = snd (createNotification env ''poll_created''
                              (no_data\<lparr>d_pollTitle := Some (p_title poll),
                                        d_pollId := Some (p_id poll)\<rparr>)
                              (u_id user) st1);
                 st3 = (if p_status poll \<noteq> ''draft'' then io_emit ''newPoll'' (PPoll poll) st2
                        else st2)
             in ((201, PollBody poll), st3))))"

subsection \<open>\<open>PATCH /api/polls/:id\<close>, lines 962-1014\<close>

definition emit_pollUpdate :: "poll \<Rightarrow> server \<Rightarrow> server" where
  "emit_pollUpdate poll st =
     (if p_status poll \<noteq> ''draft'' then
        io_emit ''pollUpdate'' (PPoll poll)
          (io_to_emit (''poll_'' @ p_id poll) ''pollUpdate'' (PPoll poll) st)
      else st)"

definition patch_poll ::
  "nenv \<Rightarrow> jwt_user \<Rightarrow> string \<Rightarrow> string option \<Rightarrow> server \<Rightarrow> response \<times> server" where
  "patch_poll env user pid status st =
     (case status of
        None \<Rightarrow> ((400, Error ''Invalid status''), st)
      | Some status \<Rightarrow>
     (if status \<notin> {''active'', ''closed'', ''draft''} then ((400, Error ''Invalid status''), st)
     else
       (case find (\<lambda>p. p_id p = pid) (polls st) of
         None \<Rightarrow> ((404, Error ''Poll not found''), st)
       | Some poll0 \<Rightarrow>
           if p_creator poll0 \<noteq> u_id user then ((403, Error ''Not authorized''), st)
           else
             let poll1 =
                   (if status = ''active'' \<and> p_status poll0 = ''closed'' then
                      poll0\<lparr>p_manual_status_override := True, p_ends_at := None\<rparr>
                    else if status = ''closed'' then
                      poll0\<lparr>p_manual_status_override := True, p_ends_at := None\<rparr>
                    else poll0);
                 poll = poll1\<lparr>p_status := status\<rparr>;
                 st1 = st\<lparr>polls := replace_doc p_id poll (polls st)\<rparr>;
                 st2 = (if status = ''closed'' then
                          snd (createNotification env ''poll_closed''
                                 (no_data\<lparr>d_pollTitle := Some (p_title poll),
                                           d_pollId := Some (p_id poll)\<rparr>)
                                 (u_id user) st1)
                        else st1)
             in ((200, MessagePoll ''Poll updated'' poll), emit_pollUpdate poll st2))))"

subsection \<open>\<open>POST /api/polls/:id/vote\<close>, lines 1133-1219\<close>

definition addToSet_polls_voted :: "string \<Rightarrow> string \<Rightarrow> user_doc list \<Rightarrow> user_doc list" where
  "addToSet_polls_voted uid pid us =
     snd (findOneAndUpdate (\<lambda>a. a_id a = uid)
            (\<lambda>a. if pid \<in> set (a_polls_voted a) then a
                  else a\<lparr>a_polls_voted := a_polls_voted a @ [pid]\<rparr>) us)"

definition post_vote ::
  "string \<Rightarrow> nenv \<Rightarrow> jwt_user \<Rightarrow> string \<Rightarrow> string option \<Rightarrow> server \<Rightarrow> response \<times> server" where
  "post_vote new_id env user pollId option_id st =
     (if \<not> truthy option_id then ((400, Error ''Option ID is required''), st)
      else
        let oid = js_or option_id [] in
        (case find (\<lambda>p. p_id p = pollId) (polls st) of
          None \<Rightarrow> ((404, Error ''Poll not found''), st)
        | Some poll0 \<Rightarrow>
            if p_status poll0 \<noteq> ''active'' then
              (if p_status poll0 = ''draft'' then ((403, Error ''Cannot vote on draft polls''), st)
               else if p_status poll0 = ''closed'' then ((403, Error ''This poll has been closed''), st)
               else ((403, Error ''Voting is not allowed on this poll''), st))
            else if \<not> p_allow_multiple_votes poll0 \<and>
                    find (\<lambda>v. v_user v = u_id user \<and> v_poll_id v = pollId) (votes st) \<noteq> None then
              ((400, Error ''You have already voted on this poll''), st)
            else
              (case findOneAndUpdate (\<lambda>o'. o_id o' = oid)
                     (\<lambda>o'. o'\<lparr>o_votes := o_votes o' + 1\<rparr>) (p_options poll0) of
                (None, _) \<Rightarrow> ((400, Error ''Invalid option''), st)
              | (Some _, opts) \<Rightarrow>
                  let vote = \<lparr>v_id = new_id, v_poll_id = pollId, v_option_id = oid,
                              v_voter_email = u_email user, v_user = u_id user\<rparr> in
                  (case insert_doc vote_valid v_id vote (votes st) of
                    None \<Rightarrow> (internal_error, st)
                  | Some vs \<Rightarrow>
                      let poll = poll0\<lparr>p_options := opts,
                                       p_total_votes := p_total_votes poll0 + 1\<rparr>;
                          st1 = st\<lparr>votes := vs,
                                   polls := replace_doc p_id poll (polls st),
                                   users := addToSet_polls_voted (u_id user) pollId (users st)\<rparr>;
                          st2 = (if p_creator poll \<noteq> u_id user then
                                   snd (createNotification env ''vote''
                                          (no_data\<lparr>d_voterName := Some (u_username user),
                                                    d_pollTitle := Some (p_title poll),
                                                    d_pollId := Some pollId\<rparr>)
                                          (p_creator poll) st1)
                                 else st1);
                          st3 = (if p_status poll \<noteq> ''draft'' then
                                   io_emit ''pollUpdate'' (PPoll poll)
                                     (io_to_emit (''poll_'' @ pollId) ''pollUpdate'' (PPoll poll) st2)
                                 else st2)
                      in ((200, MessagePoll ''Vote recorded successfully'' poll), st3)))))"

subsection \<open>\<open>POST /api/comments\<close>, lines 1277-1365\<close>

record comment_body =
  cb_poll_id :: "string option"
  cb_content :: "string option"
  cb_parent_comment_id :: "string option"

text \<open>\<open>parent_comment_id || null\<close>\<close>

definition or_null :: "string option \<Rightarrow> string option" where
  "or_null x = (if truthy x then x else None)"

definition post_comments ::
  "string \<Rightarrow> nenv \<Rightarrow> jwt_user \<Rightarrow> comment_body \<Rightarrow> server \<Rightarrow> response \<times> server" where
  "post_comments new_id env user b st =
     (if \<not> truthy (cb_poll_id b) \<or> \<not> truthy (cb_content b) then
        ((400, Error ''poll_id and content are required''), st)
      else
        let poll_id = js_or (cb_poll_id b) [];
            trimmedContent = trim (js_or (cb_content b) []);
            parent = or_null (cb_parent_comment_id b) in
        if trimmedContent = [] then ((400, Error ''Comment content cannot be empty''), st)
        else
          (case find (\<lambda>p. p_id p = poll_id) (polls st) of
            None \<Rightarrow> ((404, Error ''Poll not found''), st)
          | Some poll0 \<Rightarrow>
              if p_status poll0 = ''draft'' \<and> p_creator poll0 \<noteq> u_id user then
                ((403, Error ''Cannot comment on draft polls''), st)
              else if p_status poll0 = ''closed'' then
                ((403, Error ''This poll has been closed and no longer accepts comments''), st)
              else if find (\<lambda>c. c_user c = u_id user \<and> c_poll_id c = poll_id \<and>
                                 c_content c = trimmedContent \<and>
                                 c_parent_comment_id c = parent \<and>
                                 now env - 5000 \<le> c_createdAt c) (comments st) \<noteq> None then
                ((429, Error ''Duplicate comment detected. Please wait before posting again.''), st)
              else
                let comment = \<lparr>c_id = new_id, c_poll_id = poll_id, c_content = trimmedContent,
                               c_parent_comment_id = parent,
                               c_author_email = u_email user,
                               c_author_username = u_username user,
                               c_likes = 0, c_liked_by = [], c_user = u_id user,
                               c_replies = [], c_createdAt = now env\<rparr> in
                (case insert_doc comment_valid c_id comment (comments st) of
                  None \<Rightarrow> (internal_error, st)
                | Some cs0 \<Rightarrow>
                    let cs = (case parent of
                                None \<Rightarrow> cs0
                              | Some pc \<Rightarrow>
                                  snd (findOneAndUpdate (\<lambda>c. c_id c = pc)
                                         (\<lambda>c. c\<lparr>c_replies := c_replies c @ [c_id comment]\<rparr>) cs0));
                        poll = poll0\<lparr>p_comments_count :=
                                       length (filter (\<lambda>c. c_poll_id c = poll_id) cs)\<rparr>;
                        st1 = st\<lparr>comments := cs, polls := replace_doc p_id poll (polls st)\<rparr>;
                        st2 = (if p_creator poll \<noteq> u_id user then
                                 snd (createNotification env
                                        (if parent \<noteq> None then ''reply'' else ''comment'')
                                        ((if parent \<noteq> None
                                          then no_data\<lparr>d_replierName := Some (u_username user)\<rparr>
                                          else no_data\<lparr>d_commenterName := Some (u_username user)\<rparr>)
                                           \<lparr>d_pollTitle := Some (p_title poll),
                                            d_pollId := Some poll_id,
                                            d_commentId := Some (c_id comment)\<rparr>)
                                        (p_creator poll) st1)
                               else st1)
                    in ((201, CommentBody comment),
                        io_to_emit (''poll_'' @ poll_id) ''newComment'' (PComment comment) st2))))"

subsection \<open>\<open>POST /api/comments/:id/like\<close>, lines 1368-1456\<close>

definition post_comment_like ::
  "nenv \<Rightarrow> jwt_user \<Rightarrow> string \<Rightarrow> server \<Rightarrow> response \<times> server" where
  "post_comment_like env user cid st =
     (case find (\<lambda>c. c_id c = cid) (comments st) of
        None \<Rightarrow> ((404, Error ''Comment not found''), st)
      | Some comment0 \<Rightarrow>
          let hasLiked = (u_id user \<in> set (c_liked_by comment0)) in
          if hasLiked then
            let comment = comment0\<lparr>c_liked_by := filter (\<lambda>u. u \<noteq> u_id user) (c_liked_by comment0),
                                   c_likes := c_likes comment0 - 1\<rparr>;
                st1 = st\<lparr>comments := replace_doc c_id comment (comments st)\<rparr>
            in ((200, LikeBody ''Comment unliked'' (c_likes comment) False),
                io_to_emit (''poll_'' @ c_poll_id comment) ''commentLikeUpdate''
                  (PCommentLikeUpdate (c_id comment) (c_likes comment) (\<not> hasLiked) (u_id user)) st1)
          else
            let comment = comment0\<lparr>c_liked_by := c_liked_by comment0 @ [u_id user],
                                   c_likes := c_likes comment0 + 1\<rparr>;
                st1 = st\<lparr>comments := replace_doc c_id comment (comments st)\<rparr>;
                st2 = (if c_user comment \<noteq> u_id user then
                         (case find (\<lambda>p. p_id p = c_poll_id comment) (polls st1) of
                            None \<Rightarrow> st1
                          | Some poll \<Rightarrow>
                              snd (createNotification env ''comment_like''
                                     (no_data\<lparr>d_likerName := Some (u_username user),
                                               d_pollTitle := Some (p_title poll),
                                               d_pollId := Some (c_poll_id comment),
                                               d_commentId := Some (c_id comment)\<rparr>)
                                     (c_user comment) st1))
                       else st1)
            in ((200, LikeBody ''Comment liked'' (c_likes comment) True),
                io_to_emit (''poll_'' @ c_poll_id comment) ''commentLikeUpdate''
                  (PCommentLikeUpdate (c_id comment) (c_likes comment) (\<not> hasLiked) (u_id user)) st2))"

section \<open>Notification routes\<close>

subsection \<open>\<open>GET /api/notifications\<close>, lines 1510-1544\<close>

text \<open>
  \<open>req.query\<close>. \<open>q_limit\<close> is the limit parameter after \<open>parseInt\<close>: \<open>None\<close> when the
  request has none, \<open>Some k\<close> when it is the decimal numeral of \<open>k\<close>; other texts are not
  covered by this type.
\<close>

record list_query =
  q_limit :: "nat option"
  q_type :: "string option"
  q_priority :: "string option"
  q_unreadOnly :: "string option"

definition matches_query :: "string \<Rightarrow> list_query \<Rightarrow> notification \<Rightarrow> bool" where
  "matches_query uid q n \<longleftrightarrow>
     n_userId n = uid \<and>
     (truthy (q_type q) \<and> q_type q \<noteq> Some ''all'' \<longrightarrow> Some (n_type n) = q_type q) \<and>
     (truthy (q_priority q) \<and> q_priority q \<noteq> Some ''all'' \<longrightarrow> Some (n_priority n) = q_priority q) \<and>
     (q_unreadOnly q = Some ''true'' \<longrightarrow> n_isRead n = False)"

text \<open>
  \<open>.sort({ timestamp: -1 })\<close>: newest first; among equal timestamps the order of insertion
  is kept.
\<close>

definition sort_timestamp_desc :: "notification list \<Rightarrow> notification list" where
  "sort_timestamp_desc ns = sort_key (\<lambda>n. - int (n_timestamp n)) ns"

text \<open>\<open>.limit(k)\<close>: a limit of 0 is no limit.\<close>

definition limit :: "nat \<Rightarrow> 'a list \<Rightarrow> 'a list" where
  "limit k xs = (if k = 0 then xs else take k xs)"

definition normalized :: "notification \<Rightarrow> notification_view" where
  "normalized n = notification.extend n \<lparr>read = n_isRead n\<rparr>"

definition get_notifications :: "jwt_user \<Rightarrow> list_query \<Rightarrow> server \<Rightarrow> response" where
  "get_notifications user q st =
     (let lim = (case q_limit q of None \<Rightarrow> 50 | Some k \<Rightarrow> k);
          found = limit lim (sort_timestamp_desc
                               (filter (matches_query (u_id user) q) (notifs st)))
      in (200, NotificationList (map normalized found)))"

text \<open>The records in a response of the list route, without the alias.\<close>

definition returned :: "response \<Rightarrow> notification list" where
  "returned r = (case snd r of NotificationList vs \<Rightarrow> map notification.truncate vs | _ \<Rightarrow> [])"

subsection \<open>\<open>PATCH /api/notifications/:id/read\<close>, lines 1546-1566\<close>

definition patch_notification_read :: "jwt_user \<Rightarrow> string \<Rightarrow> server \<Rightarrow> response \<times> server" where
  "patch_notification_read user nid st =
     (case findOneAndUpdate (\<lambda>n. n_id n = nid \<and> n_userId n = u_id user)
             (\<lambda>n. n\<lparr>n_isRead := True\<rparr>) (notifs st) of
        (None, _) \<Rightarrow> ((404, Error ''Notification not found''), st)
      | (Some notification, ns) \<Rightarrow>
          ((200, MessageNotification ''Notification marked as read'' notification),
           io_to_emit (''user_'' @ u_id user) ''notificationRead''
             (PNotificationRead (n_id notification)) (st\<lparr>notifs := ns\<rparr>)))"

section \<open>Socket connection handling, lines 2164-2198\<close>

text \<open>A value a client sends with an event: a string, nothing, or something else
  (given by its rendering in a template literal).\<close>

datatype jsval = JString string | JUndefined | JOther string

fun render :: "jsval \<Rightarrow> string" where
  "render (JString s) = s"
| "render JUndefined = ''undefined''"
| "render (JOther r) = r"

text \<open>\<open>socket.user?.id === userId\<close>\<close>

fun strict_eq :: "string option \<Rightarrow> jsval \<Rightarrow> bool" where
  "strict_eq (Some s) (JString t) = (s = t)"
| "strict_eq None JUndefined = True"
| "strict_eq _ _ = False"

definition socket_join :: "string \<Rightarrow> socket \<Rightarrow> socket" where
  "socket_join room s = s\<lparr>sock_rooms := insert room (sock_rooms s)\<rparr>"

definition socket_leave :: "string \<Rightarrow> socket \<Rightarrow> socket" where
  "socket_leave room s = s\<lparr>sock_rooms := sock_rooms s - {room}\<rparr>"

text \<open>The body of \<open>io.on('connection', ...)\<close> before the listeners are installed.\<close>

definition on_connection :: "socket \<Rightarrow> socket" where
  "on_connection s =
     (if truthy (sock_user_id s) then socket_join (''user_'' @ interp (sock_user_id s)) s else s)"

datatype client_event = Join jsval | JoinPoll jsval | LeavePoll jsval | Disconnect

text \<open>The listeners; on \<open>disconnect\<close> socket.io takes the socket out of every room.\<close>

fun on_event :: "socket \<Rightarrow> client_event \<Rightarrow> socket" where
  "on_event s (Join userId) =
     (if strict_eq (sock_user_id s) userId then socket_join (''user_'' @ render userId) s else s)"
| "on_event s (JoinPoll pollId) = socket_join (''poll_'' @ render pollId) s"
| "on_event s (LeavePoll pollId) = socket_leave (''poll_'' @ render pollId) s"
| "on_event s Disconnect = s\<lparr>sock_rooms := {}\<rparr>"

text \<open>
  A connection the authentication middleware has let through, then any events. The room
  socket.io itself keeps for every socket, named by the socket's id, belongs to neither
  room family of the server and is left out.
\<close>

definition accepted :: "string \<Rightarrow> string option \<Rightarrow> socket" where
  "accepted sid uid = on_connection \<lparr>sock_id = sid, sock_user_id = uid, sock_rooms = {}\<rparr>"

definition run_events :: "socket \<Rightarrow> client_event list \<Rightarrow> socket" where
  "run_events s evs = foldl on_event s evs"

text \<open>The personal room of an identity, and the rooms of that family.\<close>

definition personal_room :: "string \<Rightarrow> string" where
  "personal_room uid = ''user_'' @ uid"

definition is_personal :: "string \<Rightarrow> bool" where
  "is_personal room \<longleftrightarrow> take 5 room = ''user_''"

section \<open>Predicates and data for the properties\<close>

text \<open>A dispatch of \<open>newNotification\<close>, and the dispatches of it in a trace.\<close>

fun is_push :: "effect \<Rightarrow> bool" where
  "is_push (Emitted tg name pl rs) = (name = ''newNotification'')"
| "is_push (Persisted n) = False"

definition pushes :: "effect list \<Rightarrow> effect list" where
  "pushes tr = filter is_push tr"

text \<open>The records whose append a trace has completed, latest first.\<close>

fun persisted :: "effect list \<Rightarrow> notification list" where
  "persisted [] = []"
| "persisted (Persisted n # tr) = persisted tr @ [n]"
| "persisted (Emitted tg name pl rs # tr) = persisted tr"

text \<open>
  Reading a trace from its start, with \<open>seen\<close> the records appended so far: every
  \<open>newNotification\<close> carries a record whose append is already in the trace.
\<close>

fun pushes_follow_appends :: "notification list \<Rightarrow> effect list \<Rightarrow> bool" where
  "pushes_follow_appends seen [] = True"
| "pushes_follow_appends seen (Persisted n # tr) = pushes_follow_appends (n # seen) tr"
| "pushes_follow_appends seen (Emitted tg name pl rs # tr) =
     ((name = ''newNotification'' \<longrightarrow> (\<exists>n \<in> set seen. pl = PNotification n)) \<and>
      pushes_follow_appends seen tr)"

text \<open>Of the personal rooms, a socket is at most in the one named after its own user id.\<close>

definition own_personal_only :: "socket \<Rightarrow> bool" where
  "own_personal_only s \<longleftrightarrow>
     (\<forall>r \<in> sock_rooms s. is_personal r \<longrightarrow> r = ''user_'' @ interp (sock_user_id s))"

text \<open>Concrete users, documents and states on which the handlers are run.\<close>

definition alice :: jwt_user where
  "alice = \<lparr>u_id = ''1700000000000alice0001'', u_username = ''alice'',
            u_email = ''alice@example.org''\<rparr>"

definition bob :: jwt_user where
  "bob = \<lparr>u_id = ''1700000000000bob000002'', u_username = ''bob'',
          u_email = ''bob@example.org''\<rparr>"

definition poll1 :: poll where
  "poll1 = \<lparr>p_id = ''1700000000100poll00001'', p_title = ''Lunch'', p_description = [],
            p_options = [\<lparr>o_id = ''o1'', o_text = ''Pizza'', o_votes = 0\<rparr>,
                         \<lparr>o_id = ''o2'', o_text = ''Sushi'', o_votes = 0\<rparr>],
            p_status = ''active'', p_ends_at = None, p_allow_multiple_votes = False,
            p_total_votes = 0, p_category = ''general'', p_comments_count = 0,
            p_manual_status_override = False, p_creator = u_id alice\<rparr>"

definition comment1 :: comment where
  "comment1 = \<lparr>c_id = ''1700000000150comment01'', c_poll_id = p_id poll1,
               c_content = ''Pizza please'', c_parent_comment_id = None,
               c_author_email = u_email alice, c_author_username = u_username alice,
               c_likes = 0, c_liked_by = [], c_user = u_id alice, c_replies = [],
               c_createdAt = 1700000000150\<rparr>"

definition socketA :: socket where
  "socketA = accepted ''h3Qk9ZbX1aLmP0tWAAAB'' (Some (u_id alice))"

definition server0 :: server where
  "server0 = \<lparr>polls = [], votes = [], comments = [],
              users = [\<lparr>a_id = u_id alice, a_polls_created = [], a_polls_voted = []\<rparr>,
                       \<lparr>a_id = u_id bob, a_polls_created = [], a_polls_voted = []\<rparr>],
              notifs = [], conns = [socketA], trace = []\<rparr>"

definition server1 :: server where
  "server1 = server0\<lparr>polls := [poll1], comments := [comment1]\<rparr>"

definition env1 :: nenv where
  "env1 = \<lparr>gen_id = ''1700000000200notif0001'', now = 1700000000200, db_accepts = True\<rparr>"

definition env_down :: nenv where
  "env_down = env1\<lparr>db_accepts := False\<rparr>"

definition vote_data :: ndata where
  "vote_data = no_data\<lparr>d_voterName := Some ''bob'', d_pollTitle := Some ''Lunch'',
                        d_pollId := Some (p_id poll1)\<rparr>"

definition note1 :: notification where
  "note1 = new_Notification env1 ''vote'' vote_data (u_id alice)"

definition server2 :: server where
  "server2 = server1\<lparr>notifs := [note1]\<rparr>"

text \<open>A store holding 51 records for one user, of increasing timestamps.\<close>

definition note_at :: "nat \<Rightarrow> notification" where
  "note_at k = note1\<lparr>n_id := gen_id env1 @ replicate k (CHR ''x''),
                      n_timestamp := now env1 + k\<rparr>"

definition server51 :: server where
  "server51 = server1\<lparr>notifs := map note_at [0..<51]\<rparr>"

definition no_query :: list_query where
  "no_query = \<lparr>q_limit = None, q_type = None, q_priority = None, q_unreadOnly = None\<rparr>"

definition body1 :: poll_body where
  "body1 = \<lparr>b_title = Some ''Dinner'', b_description = None,
            b_options = Some [OptString ''Curry'', OptString ''Ramen''],
            b_category = None, b_status = None, b_ends_at = None,
            b_allow_multiple_votes = False\<rparr>"

definition fresh1 :: "nat \<Rightarrow> string" where
  "fresh1 k = (if k = 0 then ''1700000000300opt000001'' else ''1700000000300opt000002'')"

section \<open>Properties of the reducer\<close>

lemma unread_length_Nil: "unread_length [] = 0"
  by (simp add: unread_length_def)

lemma unread_length_Cons:
  "unread_length (n # ns) = (if cn_isRead n then 0 else 1) + unread_length ns"
  by (simp add: unread_length_def)

lemma unread_length_all_read: "unread_length (map (\<lambda>n. n\<lparr>cn_isRead := True\<rparr>) ns) = 0"
  by (induction ns) (simp_all add: unread_length_Nil unread_length_Cons)

text \<open>
  C4 (as the code has it). A full-list fetch is not merged with what was pushed before: whatever
  the state was, after \<open>SET_NOTIFICATIONS\<close> the list is exactly the fetched list, so the
  fetch alone decides existence and \<open>isRead\<close>, and the unread count is the count over the
  fetched list.
\<close>

theorem fetch_replaces_list:
  "notifications (notificationReducer clk s (SET_NOTIFICATIONS fetched)) = fetched \<and>
   unreadCount (notificationReducer clk s (SET_NOTIFICATIONS fetched)) = unread_length fetched \<and>
   notificationReducer clk (notificationReducer clk' s (ADD_NOTIFICATION p))
       (SET_NOTIFICATIONS fetched)
     = notificationReducer clk s (SET_NOTIFICATIONS fetched)"
  by simp

text \<open>
  C4 as stated fails: the notification \<open>n1\<close> is pushed, then a stale fetch holding only
  \<open>n0\<close> arrives; \<open>n1\<close> is in the list before the fetch and gone after it.
\<close>

theorem fetch_drops_pushed_counterexample:
  "''n1'' \<in> set (map cn_id (notifications
       (notificationReducer clk0 initialState (ADD_NOTIFICATION push1)))) \<and>
   ''n1'' \<notin> set (map cn_id (notifications
       (notificationReducer clk0 (notificationReducer clk0 initialState (ADD_NOTIFICATION push1))
          (SET_NOTIFICATIONS [fetched0]))))"
  by (simp add: initialState_def push1_def fetched0_def newNotification_def)

text \<open>
  C5 (as the code has it). \<open>ADD_NOTIFICATION\<close> does not look for the id in the list: merging the
  same pushed event twice puts two entries at the head of the list and raises the unread
  count by two.
\<close>

theorem add_twice_adds_two:
  "notifications (notificationReducer clk2 (notificationReducer clk1 s (ADD_NOTIFICATION p))
       (ADD_NOTIFICATION p))
     = newNotification clk2 p # newNotification clk1 p # notifications s \<and>
   unreadCount (notificationReducer clk2 (notificationReducer clk1 s (ADD_NOTIFICATION p))
       (ADD_NOTIFICATION p))
     = unreadCount s + 2"
  by simp

text \<open>C5 as stated fails at the initial state: merging \<open>push1\<close> twice is not merging it once.\<close>

theorem add_twice_counterexample:
  "notificationReducer clk0 (notificationReducer clk0 initialState (ADD_NOTIFICATION push1))
       (ADD_NOTIFICATION push1)
   \<noteq> notificationReducer clk0 initialState (ADD_NOTIFICATION push1)"
  by (simp add: initialState_def)

text \<open>
  C6 (as the code has it). Whatever the state was, after set from fetch, mark one read, mark all
  read, delete one and clear all the stored unread count is the number of entries of the
  resulting list whose \<open>isRead\<close> is false. Add puts one unread entry in front of the list and
  adds one to the stored counter, so after it the count is the derived one exactly when it
  was before. \<open>UPDATE_UNREAD_COUNT\<close> stores its payload as the counter and leaves the list as
  it is.
\<close>

theorem unread_count_after_action:
  "count_derived (notificationReducer clk s (SET_NOTIFICATIONS fetched)) \<and>
   count_derived (notificationReducer clk s (MARK_AS_READ i)) \<and>
   count_derived (notificationReducer clk s MARK_ALL_AS_READ) \<and>
   count_derived (notificationReducer clk s (DELETE_NOTIFICATION i)) \<and>
   count_derived (notificationReducer clk s CLEAR_ALL) \<and>
   notifications (notificationReducer clk s (SET_NOTIFICATIONS fetched)) = fetched \<and>
   notifications (notificationReducer clk s (MARK_AS_READ i)) =
     map (\<lambda>n. if cn_id n = i then n\<lparr>cn_isRead := True\<rparr> else n) (notifications s) \<and>
   notifications (notificationReducer clk s MARK_ALL_AS_READ) =
     map (\<lambda>n. n\<lparr>cn_isRead := True\<rparr>) (notifications s) \<and>
   notifications (notificationReducer clk s (DELETE_NOTIFICATION i)) =
     filter (\<lambda>n. cn_id n \<noteq> i) (notifications s) \<and>
   notifications (notificationReducer clk s CLEAR_ALL) = [] \<and>
   notifications (notificationReducer clk s (ADD_NOTIFICATION p)) =
     newNotification clk p # notifications s \<and>
   cn_isRead (newNotification clk p) = False \<and>
   unreadCount (notificationReducer clk s (ADD_NOTIFICATION p)) = unreadCount s + 1 \<and>
   count_derived (notificationReducer clk s (ADD_NOTIFICATION p)) = count_derived s \<and>
   unreadCount (notificationReducer clk s (UPDATE_UNREAD_COUNT c)) = c \<and>
   notifications (notificationReducer clk s (UPDATE_UNREAD_COUNT c)) = notifications s"
proof -
  have recomputed:
    "count_derived (notificationReducer clk s (SET_NOTIFICATIONS fetched))"
    "count_derived (notificationReducer clk s (MARK_AS_READ i))"
    "count_derived (notificationReducer clk s (DELETE_NOTIFICATION i))"
    by (simp_all add: count_derived_def Let_def)
  have zero:
    "count_derived (notificationReducer clk s MARK_ALL_AS_READ)"
    "count_derived (notificationReducer clk s CLEAR_ALL)"
    by (simp_all add: count_derived_def unread_length_all_read unread_length_Nil)
  have lists:
    "notifications (notificationReducer clk s (SET_NOTIFICATIONS fetched)) = fetched"
    "notifications (notificationReducer clk s (MARK_AS_READ i)) =
       map (\<lambda>n. if cn_id n = i then n\<lparr>cn_isRead := True\<rparr> else n) (notifications s)"
    "notifications (notificationReducer clk s MARK_ALL_AS_READ) =
       map (\<lambda>n. n\<lparr>cn_isRead := True\<rparr>) (notifications s)"
    "notifications (notificationReducer clk s (DELETE_NOTIFICATION i)) =
       filter (\<lambda>n. cn_id n \<noteq> i) (notifications s)"
    "notifications (notificationReducer clk s CLEAR_ALL) = []"
    by (simp_all add: Let_def)
  have add:
    "notifications (notificationReducer clk s (ADD_NOTIFICATION p)) =
       newNotification clk p # notifications s"
    "cn_isRead (newNotification clk p) = False"
    "unreadCount (notificationReducer clk s (ADD_NOTIFICATION p)) = unreadCount s + 1"
    by (simp_all add: newNotification_def)
  have add_iff: "count_derived (notificationReducer clk s (ADD_NOTIFICATION p)) = count_derived s"
    by (simp add: count_derived_def unread_length_Cons newNotification_def)
  have update:
    "unreadCount (notificationReducer clk s (UPDATE_UNREAD_COUNT c)) = c"
    "notifications (notificationReducer clk s (UPDATE_UNREAD_COUNT c)) = notifications s"
    by simp_all
  from recomputed zero lists add add_iff update show ?thesis by (simp only: simp_thms)
qed

text \<open>
  On concrete states: a state whose counter has drifted is set right by mark all read, by
  delete and by a fetch, and add keeps the derived count of the initial state.
\<close>

theorem unread_count_after_action_witness:
  "\<not> count_derived drifted \<and>
   count_derived (notificationReducer clk0 drifted MARK_ALL_AS_READ) \<and>
   count_derived (notificationReducer clk0 drifted (DELETE_NOTIFICATION ''n0'')) \<and>
   count_derived (notificationReducer clk0 drifted (SET_NOTIFICATIONS [fetched0])) \<and>
   count_derived initialState \<and>
   count_derived (notificationReducer clk0 initialState (ADD_NOTIFICATION push1)) \<and>
   unreadCount (notificationReducer clk0 initialState (ADD_NOTIFICATION push1)) = 1"
proof -
  note d = unread_count_after_action [of clk0 drifted "[fetched0]" "''n0''" push1 5]
  note a = unread_count_after_action [of clk0 initialState "[fetched0]" "''n0''" push1 5]
  have off: "\<not> count_derived drifted"
    by (simp add: drifted_def count_derived_def unread_length_def fetched0_def)
  have init: "count_derived initialState"
    by (simp add: count_derived_def initialState_def unread_length_Nil)
  have zero: "unreadCount initialState = 0" by (simp add: initialState_def)
  from d have "count_derived (notificationReducer clk0 drifted MARK_ALL_AS_READ)"
    "count_derived (notificationReducer clk0 drifted (DELETE_NOTIFICATION ''n0''))"
    "count_derived (notificationReducer clk0 drifted (SET_NOTIFICATIONS [fetched0]))"
    by blast+
  moreover from a init
  have "count_derived (notificationReducer clk0 initialState (ADD_NOTIFICATION push1))"
    by blast
  moreover from a zero
  have "unreadCount (notificationReducer clk0 initialState (ADD_NOTIFICATION push1)) = 1"
    by simp
  ultimately show ?thesis using off init by (simp only: simp_thms)
qed

text \<open>
  C6 as stated fails for \<open>UPDATE_UNREAD_COUNT\<close>, which on the empty list stores the count 5,
  and for add after it, which raises that counter to 6 over a list with one unread entry.
\<close>

theorem update_count_counterexample:
  "\<not> count_derived (notificationReducer clk0 initialState (UPDATE_UNREAD_COUNT 5)) \<and>
   \<not> count_derived (notificationReducer clk0
        (notificationReducer clk0 initialState (UPDATE_UNREAD_COUNT 5)) (ADD_NOTIFICATION push1))"
  by (simp add: count_derived_def initialState_def unread_length_def newNotification_def)

section \<open>Properties of the notification service\<close>

lemma createNotification_result:
  "fst (createNotification env type data userId st) = Some n \<Longrightarrow>
   n = new_Notification env type data userId"
  by (cases "Notification_save env (new_Notification env type data userId) st")
     (simp_all add: createNotification_def Let_def)

lemma client_priority_agrees:
  "client_getNotificationPriority type = getNotificationPriority type"
  by (simp add: getNotificationPriority_def client_getNotificationPriority_def)

text \<open>
  C8. The server maps \<open>system\<close> to \<open>high\<close>; \<open>comment\<close>, \<open>reply\<close> and \<open>poll_closed\<close> to
  \<open>medium\<close>; \<open>vote\<close>, \<open>comment_like\<close> and \<open>poll_created\<close> to \<open>low\<close>; the client's function
  gives the same priority on every kind; and the record \<open>createNotification\<close> builds has the
  priority of its kind.
\<close>

theorem priority_table:
  "getNotificationPriority ''system'' = ''high'' \<and>
   getNotificationPriority ''comment'' = ''medium'' \<and>
   getNotificationPriority ''reply'' = ''medium'' \<and>
   getNotificationPriority ''poll_closed'' = ''medium'' \<and>
   getNotificationPriority ''vote'' = ''low'' \<and>
   getNotificationPriority ''comment_like'' = ''low'' \<and>
   getNotificationPriority ''poll_created'' = ''low'' \<and>
   client_getNotificationPriority type = getNotificationPriority type \<and>
   n_priority (new_Notification env type data userId) = getNotificationPriority type \<and>
   (fst (createNotification env type data userId st) = Some n \<longrightarrow>
      n_priority n = getNotificationPriority (n_type n))"
proof -
  have table: "getNotificationPriority ''system'' = ''high''"
    "getNotificationPriority ''comment'' = ''medium''"
    "getNotificationPriority ''reply'' = ''medium''"
    "getNotificationPriority ''poll_closed'' = ''medium''"
    "getNotificationPriority ''vote'' = ''low''"
    "getNotificationPriority ''comment_like'' = ''low''"
    "getNotificationPriority ''poll_created'' = ''low''"
    by (simp_all add: getNotificationPriority_def)
  have built: "n_priority (new_Notification env type data userId) = getNotificationPriority type"
    by (simp add: new_Notification_def)
  have made: "fst (createNotification env type data userId st) = Some n \<longrightarrow>
      n_priority n = getNotificationPriority (n_type n)"
  proof
    assume "fst (createNotification env type data userId st) = Some n"
    then have "n = new_Notification env type data userId"
      by (rule createNotification_result)
    then show "n_priority n = getNotificationPriority (n_type n)"
      by (simp add: new_Notification_def)
  qed
  from table client_priority_agrees built made show ?thesis by blast
qed

theorem priority_table_witness:
  "fst (createNotification env1 ''vote'' vote_data (u_id alice) server1) = Some note1 \<and>
   n_priority note1 = ''low'' \<and> getNotificationPriority (n_type note1) = ''low''"
proof -
  have made: "fst (createNotification env1 ''vote'' vote_data (u_id alice) server1) = Some note1"
    by (simp add: createNotification_def Notification_save_def insert_doc_def
        notification_valid_def new_Notification_def env1_def server1_def server0_def note1_def
        vote_data_def alice_def formatNotificationMessage_def getNotificationPriority_def
        no_data_def poll1_def Let_def)
  have low: "getNotificationPriority (n_type note1) = ''low''"
    by (simp add: note1_def new_Notification_def getNotificationPriority_def)
  from priority_table [of "''vote''" env1 vote_data "u_id alice" server1 note1]
  have "fst (createNotification env1 ''vote'' vote_data (u_id alice) server1) = Some note1 \<longrightarrow>
      n_priority note1 = getNotificationPriority (n_type note1)"
    by (elim conjE)
  with made low show ?thesis by (simp only: simp_thms)
qed

section \<open>Properties of the notification routes\<close>

lemma findOneAndUpdate_none:
  "\<forall>x \<in> set xs. \<not> flt x \<Longrightarrow> findOneAndUpdate flt upd xs = (None, xs)"
  by (induction xs) simp_all

lemma findOneAndUpdate_some:
  "\<exists>x \<in> set xs. flt x \<Longrightarrow>
   \<exists>m \<in> set xs. flt m \<and> fst (findOneAndUpdate flt upd xs) = Some (upd m) \<and>
     upd m \<in> set (snd (findOneAndUpdate flt upd xs))"
proof (induction xs)
  case Nil
  then show ?case by simp
next
  case (Cons a xs)
  show ?case
  proof (cases "flt a")
    case True
    then show ?thesis by auto
  next
    case False
    with Cons.prems have "\<exists>x \<in> set xs. flt x" by auto
    from Cons.IH [OF this] obtain m where "m \<in> set xs" "flt m"
      "fst (findOneAndUpdate flt upd xs) = Some (upd m)"
      "upd m \<in> set (snd (findOneAndUpdate flt upd xs))" by blast
    with False show ?thesis
      by (cases "findOneAndUpdate flt upd xs") auto
  qed
qed

lemma findOneAndUpdate_again:
  assumes "\<And>x. flt x \<Longrightarrow> flt (upd x) \<and> upd (upd x) = upd x"
  shows "findOneAndUpdate flt upd (snd (findOneAndUpdate flt upd xs)) = findOneAndUpdate flt upd xs"
  using assms by (induction xs) (auto split: prod.splits)

lemma read_found:
  assumes "\<exists>n \<in> set (notifs st). n_id n = nid \<and> n_userId n = u_id user"
  shows "\<exists>m \<in> set (notifs st). n_id m = nid \<and> n_userId m = u_id user \<and>
      fst (patch_notification_read user nid st) =
        (200, MessageNotification ''Notification marked as read'' (m\<lparr>n_isRead := True\<rparr>)) \<and>
      m\<lparr>n_isRead := True\<rparr> \<in> set (notifs (snd (patch_notification_read user nid st)))"
proof -
  let ?f = "\<lambda>n. n_id n = nid \<and> n_userId n = u_id user"
  let ?u = "\<lambda>n. n\<lparr>n_isRead := True\<rparr>"
  from assms have "\<exists>x \<in> set (notifs st). ?f x" by simp
  from findOneAndUpdate_some [OF this, of ?u]
  obtain m where m: "m \<in> set (notifs st)" "?f m"
    "fst (findOneAndUpdate ?f ?u (notifs st)) = Some (?u m)"
    "?u m \<in> set (snd (findOneAndUpdate ?f ?u (notifs st)))" by blast
  then show ?thesis
    by (cases "findOneAndUpdate ?f ?u (notifs st)")
       (auto simp: patch_notification_read_def io_to_emit_def intro!: bexI [of _ m])
qed

lemma read_absent:
  assumes "\<not> (\<exists>n \<in> set (notifs st). n_id n = nid \<and> n_userId n = u_id user)"
  shows "patch_notification_read user nid st = ((404, Error ''Notification not found''), st)"
proof -
  from assms have "\<forall>x \<in> set (notifs st). \<not> (n_id x = nid \<and> n_userId x = u_id user)" by blast
  from findOneAndUpdate_none [OF this] show ?thesis
    by (simp add: patch_notification_read_def)
qed

lemma read_twice:
  "fst (patch_notification_read user nid (snd (patch_notification_read user nid st)))
     = fst (patch_notification_read user nid st) \<and>
   notifs (snd (patch_notification_read user nid (snd (patch_notification_read user nid st))))
     = notifs (snd (patch_notification_read user nid st))"
proof -
  let ?f = "\<lambda>n. n_id n = nid \<and> n_userId n = u_id user"
  let ?u = "\<lambda>n. n\<lparr>n_isRead := True\<rparr>"
  have again: "findOneAndUpdate ?f ?u (snd (findOneAndUpdate ?f ?u (notifs st)))
      = findOneAndUpdate ?f ?u (notifs st)"
    by (rule findOneAndUpdate_again) simp
  show ?thesis
  proof (cases "findOneAndUpdate ?f ?u (notifs st)")
    case (Pair r ns)
    then show ?thesis using again
      by (cases r) (simp_all add: patch_notification_read_def io_to_emit_def)
  qed
qed

text \<open>
  C9. Marking a notification read answers 200 with the record, now read, exactly when a
  record with that id owned by the caller is in the store, and otherwise answers 404 and
  leaves the state as it was (an absent id and another user's record alike). A second call
  gives the same answer and the same store as the first.
\<close>

theorem mark_read_owner_only:
  "(if \<exists>n \<in> set (notifs st). n_id n = nid \<and> n_userId n = u_id user
    then \<exists>m \<in> set (notifs st). n_id m = nid \<and> n_userId m = u_id user \<and>
           fst (patch_notification_read user nid st) =
             (200, MessageNotification ''Notification marked as read'' (m\<lparr>n_isRead := True\<rparr>)) \<and>
           m\<lparr>n_isRead := True\<rparr> \<in> set (notifs (snd (patch_notification_read user nid st)))
    else patch_notification_read user nid st = ((404, Error ''Notification not found''), st)) \<and>
   fst (patch_notification_read user nid (snd (patch_notification_read user nid st)))
     = fst (patch_notification_read user nid st) \<and>
   notifs (snd (patch_notification_read user nid (snd (patch_notification_read user nid st))))
     = notifs (snd (patch_notification_read user nid st))"
proof (cases "\<exists>n \<in> set (notifs st). n_id n = nid \<and> n_userId n = u_id user")
  case True
  from read_found [OF True] True read_twice [of user nid st] show ?thesis
    by (simp only: if_True simp_thms)
next
  case False
  from read_absent [OF False] False read_twice [of user nid st] show ?thesis
    by (simp only: if_False simp_thms)
qed

theorem mark_read_owner_only_witness:
  "fst (patch_notification_read alice (n_id note1) server2) =
     (200, MessageNotification ''Notification marked as read'' (note1\<lparr>n_isRead := True\<rparr>)) \<and>
   patch_notification_read bob (n_id note1) server2 =
     ((404, Error ''Notification not found''), server2)"
proof -
  have store: "notifs server2 = [note1]"
    by (simp add: server2_def)
  have owner: "n_userId note1 = u_id alice"
    by (simp add: note1_def new_Notification_def)
  have other: "u_id bob \<noteq> u_id alice"
    by (simp add: alice_def bob_def)
  from mark_read_owner_only [of server2 "n_id note1" alice] store owner
  have "fst (patch_notification_read alice (n_id note1) server2) =
     (200, MessageNotification ''Notification marked as read'' (note1\<lparr>n_isRead := True\<rparr>))"
    by simp
  moreover from mark_read_owner_only [of server2 "n_id note1" bob] store owner other
  have "patch_notification_read bob (n_id note1) server2 =
     ((404, Error ''Notification not found''), server2)"
    by simp
  ultimately show ?thesis by (rule conjI)
qed

lemma sorted_take_drop:
  assumes "sorted (map k xs)" "x \<in> set (take m xs)" "y \<in> set (drop m xs)"
  shows "k x \<le> k y"
proof -
  have "sorted (map k (take m xs) @ map k (drop m xs))"
    using assms(1) by (simp flip: map_append)
  then show ?thesis using assms(2,3) by (auto simp: sorted_append)
qed

lemma sort_timestamp_desc_sorted:
  "sorted (map (\<lambda>n. - int (n_timestamp n)) (sort_timestamp_desc ns))"
  by (simp add: sort_timestamp_desc_def)

lemma sort_timestamp_desc_mset: "mset (sort_timestamp_desc ns) = mset ns"
  by (simp add: sort_timestamp_desc_def)

lemma newest_first:
  assumes "x \<in> set (take m (sort_timestamp_desc ns))" "y \<in> set (drop m (sort_timestamp_desc ns))"
  shows "n_timestamp y \<le> n_timestamp x"
proof -
  from sorted_take_drop [OF sort_timestamp_desc_sorted assms]
  have "- int (n_timestamp x) \<le> - int (n_timestamp y)" .
  then show ?thesis by simp
qed

lemma truncate_normalized: "notification.truncate (normalized n) = n"
  by (simp add: normalized_def notification.truncate_def notification.extend_def)

lemma returned_default:
  assumes "q_limit q = None"
  shows "returned (get_notifications user q st) =
     take 50 (sort_timestamp_desc (filter (matches_query (u_id user) q) (notifs st)))"
  using assms
  by (simp add: returned_def get_notifications_def limit_def o_def truncate_normalized)

text \<open>
  C10. With no limit parameter the list route answers 200 with the caller's matching
  records newest first, cut after the 50th: it returns 50 of them when more than 50 match
  and all of them otherwise, each returned record is at least as recent as every matching
  record left out, and when more than 50 match some matching records of the store are not
  in the response.
\<close>

theorem default_limit_50:
  assumes "q_limit q = None"
  shows "get_notifications user q st =
       (200, NotificationList (map normalized (returned (get_notifications user q st)))) \<and>
     length (returned (get_notifications user q st)) =
       min 50 (length (filter (matches_query (u_id user) q) (notifs st))) \<and>
     mset (returned (get_notifications user q st)) \<subseteq>#
       mset (filter (matches_query (u_id user) q) (notifs st)) \<and>
     (\<forall>x \<in># mset (returned (get_notifications user q st)).
        \<forall>y \<in># mset (filter (matches_query (u_id user) q) (notifs st)) -
                 mset (returned (get_notifications user q st)).
          n_timestamp y \<le> n_timestamp x) \<and>
     sorted_wrt (\<lambda>a b. n_timestamp b \<le> n_timestamp a) (returned (get_notifications user q st)) \<and>
     (50 < length (filter (matches_query (u_id user) q) (notifs st)) \<longrightarrow>
        mset (filter (matches_query (u_id user) q) (notifs st)) -
          mset (returned (get_notifications user q st)) \<noteq> {#})"
proof -
  let ?matching = "filter (matches_query (u_id user) q) (notifs st)"
  let ?sorted = "sort_timestamp_desc ?matching"
  let ?found = "take 50 ?sorted"
  let ?omitted = "drop 50 ?sorted"
  have ret: "returned (get_notifications user q st) = ?found"
    using assms by (rule returned_default)
  have len: "length ?sorted = length ?matching"
    by (simp add: sort_timestamp_desc_def)
  have resp: "get_notifications user q st = (200, NotificationList (map normalized ?found))"
    using assms by (simp add: get_notifications_def limit_def)
  have count: "length ?found = min 50 (length ?matching)"
    using len by (simp add: min.commute)
  have "mset ?found + mset ?omitted = mset (?found @ ?omitted)" by (simp only: mset_append)
  also have "\<dots> = mset ?matching" by (simp add: sort_timestamp_desc_mset)
  finally have split: "mset ?found + mset ?omitted = mset ?matching" .
  then have rest: "mset ?matching - mset ?found = mset ?omitted"
    by (metis add_diff_cancel_left')
  from split have sub: "mset ?found \<subseteq># mset ?matching"
    by (metis mset_subset_eq_add_left)
  have newest: "\<forall>x \<in># mset ?found. \<forall>y \<in># mset ?matching - mset ?found.
      n_timestamp y \<le> n_timestamp x"
    unfolding rest using newest_first by simp
  have "sorted_wrt (\<lambda>a b. - int (n_timestamp a) \<le> - int (n_timestamp b)) ?sorted"
    using sort_timestamp_desc_sorted [of ?matching] by (simp add: sorted_map)
  then have "sorted_wrt (\<lambda>a b. - int (n_timestamp a) \<le> - int (n_timestamp b)) ?found"
    by (rule sorted_wrt_take)
  then have desc: "sorted_wrt (\<lambda>a b. n_timestamp b \<le> n_timestamp a) ?found"
    by simp
  have more: "50 < length ?matching \<longrightarrow> mset ?matching - mset ?found \<noteq> {#}"
    unfolding rest using len by simp
  from resp count sub newest desc more show ?thesis
    unfolding ret by (simp only: simp_thms)
qed

lemma note_at_matches: "matches_query (u_id alice) no_query (note_at k)"
  by (simp add: matches_query_def no_query_def note_at_def note1_def new_Notification_def)

theorem default_limit_50_witness:
  "q_limit no_query = None \<and>
   length (filter (matches_query (u_id alice) no_query) (notifs server51)) = 51 \<and>
   length (returned (get_notifications alice no_query server51)) = 50 \<and>
   mset (filter (matches_query (u_id alice) no_query) (notifs server51)) -
     mset (returned (get_notifications alice no_query server51)) \<noteq> {#}"
proof -
  have none: "q_limit no_query = None" by (simp add: no_query_def)
  have "filter (matches_query (u_id alice) no_query) (notifs server51) = notifs server51"
    by (simp add: server51_def note_at_matches filter_map o_def)
  then have n: "length (filter (matches_query (u_id alice) no_query) (notifs server51)) = 51"
    by (simp add: server51_def)
  from default_limit_50 [OF none, of alice server51] n
  have "length (returned (get_notifications alice no_query server51)) = 50"
    "mset (filter (matches_query (u_id alice) no_query) (notifs server51)) -
     mset (returned (get_notifications alice no_query server51)) \<noteq> {#}"
    by simp_all
  with none n show ?thesis by (simp only: simp_thms)
qed

section \<open>Append and push in \<open>createNotification\<close>\<close>

lemma pushes_follow_appends_append:
  "pushes_follow_appends seen (tr @ tr') \<longleftrightarrow>
     pushes_follow_appends seen tr \<and> pushes_follow_appends (persisted tr @ seen) tr'"
  by (induction seen tr rule: pushes_follow_appends.induct) simp_all

lemma createNotification_failed:
  assumes "Notification_save env (new_Notification env type data userId) st = None"
  shows "createNotification env type data userId st = (None, st)"
  using assms by (simp add: createNotification_def)

lemma createNotification_saved:
  assumes "Notification_save env (new_Notification env type data userId) st = Some st1"
  shows "createNotification env type data userId st =
     (Some (new_Notification env type data userId),
      st\<lparr>notifs := notifs st @ [new_Notification env type data userId],
         trace := trace st @
           [Persisted (new_Notification env type data userId),
            Emitted (Room (personal_room userId)) ''newNotification''
              (PNotification (new_Notification env type data userId))
              (room_sockets st (personal_room userId))]\<rparr>)"
  using assms
  by (auto simp: createNotification_def Notification_save_def insert_doc_def io_to_emit_def
      personal_room_def room_sockets_def Let_def split: if_splits)

lemma createNotification_order:
  assumes "pushes_follow_appends seen (trace st)"
  shows "pushes_follow_appends seen (trace (snd (createNotification env type data userId st)))"
proof (cases "Notification_save env (new_Notification env type data userId) st")
  case None
  with assms show ?thesis by (simp add: createNotification_failed)
next
  case (Some st1)
  with assms show ?thesis
    by (simp add: createNotification_saved pushes_follow_appends_append)
qed

lemma createNotification_ignores_conns:
  "fst (createNotification env type data userId (st\<lparr>conns := cs\<rparr>)) =
     fst (createNotification env type data userId st) \<and>
   notifs (snd (createNotification env type data userId (st\<lparr>conns := cs\<rparr>))) =
     notifs (snd (createNotification env type data userId st))"
  by (simp add: createNotification_def Notification_save_def io_to_emit_def Let_def
      split: option.splits)

text \<open>
  C2. In one call of \<open>createNotification\<close>: when the append is rejected the call returns
  \<open>null\<close> and leaves the state, and so the trace, as it was (nothing is pushed); when it
  is accepted the record is in the store and the call adds to the trace the completed
  append and after it the one \<open>newNotification\<close> to the recipient's personal room, so a
  trace in which every push follows the append of its record stays such a trace. What is
  returned and stored does not depend on which sockets are connected or in which rooms.
\<close>

theorem append_before_push:
  "(Notification_save env (new_Notification env type data userId) st = None \<longrightarrow>
      createNotification env type data userId st = (None, st)) \<and>
   (Notification_save env (new_Notification env type data userId) st \<noteq> None \<longrightarrow>
      createNotification env type data userId st =
        (Some (new_Notification env type data userId),
         st\<lparr>notifs := notifs st @ [new_Notification env type data userId],
            trace := trace st @
              [Persisted (new_Notification env type data userId),
               Emitted (Room (personal_room userId)) ''newNotification''
                 (PNotification (new_Notification env type data userId))
                 (room_sockets st (personal_room userId))]\<rparr>)) \<and>
   (pushes_follow_appends seen (trace st) \<longrightarrow>
      pushes_follow_appends seen (trace (snd (createNotification env type data userId st)))) \<and>
   fst (createNotification env type data userId (st\<lparr>conns := cs\<rparr>)) =
     fst (createNotification env type data userId st) \<and>
   notifs (snd (createNotification env type data userId (st\<lparr>conns := cs\<rparr>))) =
     notifs (snd (createNotification env type data userId st))"
proof -
  have failed: "Notification_save env (new_Notification env type data userId) st = None \<longrightarrow>
      createNotification env type data userId st = (None, st)"
    using createNotification_failed by blast
  have saved: "Notification_save env (new_Notification env type data userId) st \<noteq> None \<longrightarrow>
      createNotification env type data userId st =
        (Some (new_Notification env type data userId),
         st\<lparr>notifs := notifs st @ [new_Notification env type data userId],
            trace := trace st @
              [Persisted (new_Notification env type data userId),
               Emitted (Room (personal_room userId)) ''newNotification''
                 (PNotification (new_Notification env type data userId))
                 (room_sockets st (personal_room userId))]\<rparr>)"
    using createNotification_saved by blast
  have order: "pushes_follow_appends seen (trace st) \<longrightarrow>
      pushes_follow_appends seen (trace (snd (createNotification env type data userId st)))"
    using createNotification_order by blast
  from failed saved order createNotification_ignores_conns [of env type data userId cs st]
  show ?thesis by (simp only: simp_thms)
qed

theorem append_before_push_witness:
  "Notification_save env_down (new_Notification env_down ''vote'' vote_data (u_id alice)) server1 = None \<and>
   createNotification env_down ''vote'' vote_data (u_id alice) server1 = (None, server1) \<and>
   Notification_save env1 (new_Notification env1 ''vote'' vote_data (u_id alice)) server1 \<noteq> None \<and>
   pushes_follow_appends [] (trace server1) \<and>
   trace (snd (createNotification env1 ''vote'' vote_data (u_id alice) server1)) =
     [Persisted note1,
      Emitted (Room (personal_room (u_id alice))) ''newNotification'' (PNotification note1)
        [sock_id socketA]] \<and>
   pushes_follow_appends [] (trace (snd (createNotification env1 ''vote'' vote_data (u_id alice) server1)))"
proof -
  have down: "Notification_save env_down (new_Notification env_down ''vote'' vote_data (u_id alice)) server1 = None"
    by (simp add: Notification_save_def env_down_def)
  have up: "Notification_save env1 (new_Notification env1 ''vote'' vote_data (u_id alice)) server1 \<noteq> None"
    by (simp add: Notification_save_def insert_doc_def notification_valid_def
        new_Notification_def env1_def server1_def server0_def vote_data_def alice_def
        formatNotificationMessage_def getNotificationPriority_def no_data_def poll1_def)
  have tr: "trace server1 = []"
    by (simp add: server1_def server0_def)
  then have ok: "pushes_follow_appends [] (trace server1)" by simp
  have room: "room_sockets server1 (personal_room (u_id alice)) = [sock_id socketA]"
    by (simp add: room_sockets_def server1_def server0_def socketA_def accepted_def
        on_connection_def socket_join_def personal_room_def alice_def)
  note d = append_before_push [of env_down "''vote''" vote_data "u_id alice" server1 "[]" "[]"]
  note u = append_before_push [of env1 "''vote''" vote_data "u_id alice" server1 "[]" "[]"]
  from d down have r1: "createNotification env_down ''vote'' vote_data (u_id alice) server1 = (None, server1)"
    by blast
  from u up have r2: "createNotification env1 ''vote'' vote_data (u_id alice) server1 =
        (Some note1,
         server1\<lparr>notifs := notifs server1 @ [note1],
            trace := trace server1 @
              [Persisted note1,
               Emitted (Room (personal_room (u_id alice))) ''newNotification''
                 (PNotification note1) (room_sockets server1 (personal_room (u_id alice)))]\<rparr>)"
    unfolding note1_def by blast
  from u ok have r3: "pushes_follow_appends [] (trace (snd (createNotification env1 ''vote'' vote_data (u_id alice) server1)))"
    by blast
  from r2 tr room
  have r4: "trace (snd (createNotification env1 ''vote'' vote_data (u_id alice) server1)) =
     [Persisted note1,
      Emitted (Room (personal_room (u_id alice))) ''newNotification'' (PNotification note1)
        [sock_id socketA]]"
    by simp
  from down r1 up ok r4 r3 show ?thesis by (simp only: simp_thms)
qed

section \<open>Properties of the socket handlers\<close>

lemma strict_eq_render: "strict_eq uid p \<Longrightarrow> render p = interp uid"
  by (cases uid; cases p) simp_all

lemma personal_room_is_personal: "is_personal (personal_room uid)"
  by (simp add: is_personal_def personal_room_def)

lemma on_event_user: "sock_user_id (on_event s ev) = sock_user_id s"
  by (cases ev) (simp_all add: socket_join_def socket_leave_def)

lemma on_event_own_personal_only:
  assumes "own_personal_only s"
  shows "own_personal_only (on_event s ev)"
proof (cases ev)
  case (Join p)
  with assms show ?thesis
    by (auto simp: own_personal_only_def socket_join_def dest: strict_eq_render)
next
  case (JoinPoll p)
  with assms show ?thesis
    by (auto simp: own_personal_only_def socket_join_def is_personal_def)
next
  case (LeavePoll p)
  with assms show ?thesis
    by (auto simp: own_personal_only_def socket_leave_def)
next
  case Disconnect
  then show ?thesis by (simp add: own_personal_only_def)
qed

lemma run_events_user: "sock_user_id (run_events s evs) = sock_user_id s"
  unfolding run_events_def by (induction evs arbitrary: s) (simp_all add: on_event_user)

lemma run_events_own_personal_only:
  "own_personal_only s \<Longrightarrow> own_personal_only (run_events s evs)"
  unfolding run_events_def
  by (induction evs arbitrary: s) (simp_all add: on_event_own_personal_only)

lemma accepted_own_personal_only: "own_personal_only (accepted sid uid)"
  by (simp add: own_personal_only_def accepted_def on_connection_def socket_join_def)

lemma accepted_user: "sock_user_id (accepted sid uid) = uid"
  by (simp add: accepted_def on_connection_def socket_join_def)

text \<open>
  C7. On a connection authenticated as \<open>me\<close>, a \<open>join\<close> whose payload is anything but the
  string \<open>me\<close> changes nothing; and whatever events a client sends after the connection
  is accepted, the only personal room the connection is ever in is \<open>user_me\<close>, so it is
  never in the personal room of another identity.
\<close>

theorem no_cross_identity_join:
  "(sock_user_id s = Some me \<and> p \<noteq> JString me \<longrightarrow> on_event s (Join p) = s) \<and>
   (\<forall>r \<in> sock_rooms (run_events (accepted sid (Some me)) evs).
      is_personal r \<longrightarrow> r = personal_room me) \<and>
   (other \<noteq> me \<longrightarrow> personal_room other \<notin> sock_rooms (run_events (accepted sid (Some me)) evs))"
proof -
  have reject: "sock_user_id s = Some me \<and> p \<noteq> JString me \<longrightarrow> on_event s (Join p) = s"
    by (cases p) auto
  have "own_personal_only (run_events (accepted sid (Some me)) evs)"
    by (rule run_events_own_personal_only) (rule accepted_own_personal_only)
  then have only: "\<forall>r \<in> sock_rooms (run_events (accepted sid (Some me)) evs).
      is_personal r \<longrightarrow> r = personal_room me"
    by (simp add: own_personal_only_def run_events_user accepted_user personal_room_def)
  have "other \<noteq> me \<longrightarrow> personal_room other \<notin> sock_rooms (run_events (accepted sid (Some me)) evs)"
  proof
    assume neq: "other \<noteq> me"
    show "personal_room other \<notin> sock_rooms (run_events (accepted sid (Some me)) evs)"
    proof
      assume "personal_room other \<in> sock_rooms (run_events (accepted sid (Some me)) evs)"
      with only personal_room_is_personal have "personal_room other = personal_room me" by blast
      with neq show False by (simp add: personal_room_def)
    qed
  qed
  with reject only show ?thesis by blast
qed

theorem no_cross_identity_join_witness:
  "sock_user_id (accepted ''s1'' (Some (u_id alice))) = Some (u_id alice) \<and>
   JString (u_id bob) \<noteq> JString (u_id alice) \<and>
   on_event (accepted ''s1'' (Some (u_id alice))) (Join (JString (u_id bob)))
     = accepted ''s1'' (Some (u_id alice)) \<and>
   sock_rooms (run_events (accepted ''s1'' (Some (u_id alice)))
       [Join (JString (u_id bob)), JoinPoll (JString (p_id poll1)), Join (JString (u_id alice))])
     = {personal_room (u_id alice), ''poll_'' @ p_id poll1} \<and>
   personal_room (u_id bob) \<notin> sock_rooms (run_events (accepted ''s1'' (Some (u_id alice)))
       [Join (JString (u_id bob)), JoinPoll (JString (p_id poll1)), Join (JString (u_id alice))])"
proof -
  let ?evs = "[Join (JString (u_id bob)), JoinPoll (JString (p_id poll1)), Join (JString (u_id alice))]"
  note t = no_cross_identity_join [of "accepted ''s1'' (Some (u_id alice))" "u_id alice"
      "JString (u_id bob)" "''s1''" ?evs "u_id bob"]
  have uid: "sock_user_id (accepted ''s1'' (Some (u_id alice))) = Some (u_id alice)"
    by (rule accepted_user)
  have neq: "u_id bob \<noteq> u_id alice" by (simp add: alice_def bob_def)
  then have neq': "JString (u_id bob) \<noteq> JString (u_id alice)" by simp
  from t uid neq' have rej: "on_event (accepted ''s1'' (Some (u_id alice))) (Join (JString (u_id bob)))
     = accepted ''s1'' (Some (u_id alice))" by blast
  from t neq have out: "personal_room (u_id bob) \<notin> sock_rooms (run_events (accepted ''s1'' (Some (u_id alice))) ?evs)"
    by blast
  have rooms: "sock_rooms (run_events (accepted ''s1'' (Some (u_id alice))) ?evs)
     = {personal_room (u_id alice), ''poll_'' @ p_id poll1}"
    by (auto simp: run_events_def accepted_def on_connection_def socket_join_def
        personal_room_def alice_def bob_def)
  from uid neq' rej rooms out show ?thesis by (simp only: simp_thms)
qed

section \<open>Properties of the triggering handlers\<close>

lemma trim_removes_unicode_space:
  "trim ([CHR 0xC2, CHR 0xA0] @ '' a b '' @ [CHR 0xE2, CHR 0x80, CHR 0xA8, CHR 0x09]) = ''a b''"
  "trim [CHR 0xC2, CHR 0xA0] = []"
  by (simp_all add: trim_def strip_leading.simps ws_match_def white_space_def)

lemma io_to_emit_simps:
  "notifs (io_to_emit room name pl st) = notifs st"
  "polls (io_to_emit room name pl st) = polls st"
  "votes (io_to_emit room name pl st) = votes st"
  "comments (io_to_emit room name pl st) = comments st"
  "users (io_to_emit room name pl st) = users st"
  "conns (io_to_emit room name pl st) = conns st"
  "pushes (trace (io_to_emit room name pl st)) =
     pushes (trace st) @
       (if name = ''newNotification'' then [Emitted (Room room) name pl (room_sockets st room)] else [])"
  by (simp_all add: io_to_emit_def pushes_def)

lemma io_emit_simps:
  "notifs (io_emit name pl st) = notifs st"
  "polls (io_emit name pl st) = polls st"
  "votes (io_emit name pl st) = votes st"
  "comments (io_emit name pl st) = comments st"
  "users (io_emit name pl st) = users st"
  "conns (io_emit name pl st) = conns st"
  "pushes (trace (io_emit name pl st)) =
     pushes (trace st) @
       (if name = ''newNotification'' then [Emitted Broadcast name pl (map sock_id (conns st))] else [])"
  by (simp_all add: io_emit_def pushes_def)

lemma vote_self:
  assumes "find (\<lambda>p. p_id p = pollId) (polls st) = Some poll0" and "p_creator poll0 = u_id user"
  shows "notifs (snd (post_vote new_id env user pollId option_id st)) = notifs st \<and>
         pushes (trace (snd (post_vote new_id env user pollId option_id st))) = pushes (trace st)"
  using assms
  by (simp add: post_vote_def Let_def io_to_emit_simps io_emit_simps
      split: option.splits prod.splits)

lemma comment_self:
  assumes "cb_poll_id b = Some pid" and "find (\<lambda>p. p_id p = pid) (polls st) = Some poll0"
    and "p_creator poll0 = u_id user"
  shows "notifs (snd (post_comments new_id env user b st)) = notifs st \<and>
         pushes (trace (snd (post_comments new_id env user b st))) = pushes (trace st)"
  using assms
  by (simp add: post_comments_def Let_def io_to_emit_simps
      split: option.splits prod.splits)

lemma like_self:
  assumes "find (\<lambda>c. c_id c = cid) (comments st) = Some comment0"
    and "c_user comment0 = u_id user"
  shows "notifs (snd (post_comment_like env user cid st)) = notifs st \<and>
         pushes (trace (snd (post_comment_like env user cid st))) = pushes (trace st)"
  using assms
  by (simp add: post_comment_like_def Let_def io_to_emit_simps
      split: option.splits prod.splits)


lemma createNotification_keeps:
  "polls (snd (createNotification env type data userId st)) = polls st"
  "votes (snd (createNotification env type data userId st)) = votes st"
  "comments (snd (createNotification env type data userId st)) = comments st"
  "users (snd (createNotification env type data userId st)) = users st"
  "conns (snd (createNotification env type data userId st)) = conns st"
  by (simp_all add: createNotification_def Notification_save_def io_to_emit_def Let_def
      split: option.splits)

lemma createNotification_down:
  "\<not> db_accepts env \<Longrightarrow> createNotification env type data userId st = (None, st)"
  by (simp add: createNotification_def Notification_save_def)

lemma vote_response_env:
  "fst (post_vote new_id (env\<lparr>db_accepts := False\<rparr>) user pollId option_id st) =
   fst (post_vote new_id env user pollId option_id st)"
  by (simp add: post_vote_def Let_def split: option.splits prod.splits)

lemma vote_recorded_env:
  "votes (snd (post_vote new_id (env\<lparr>db_accepts := False\<rparr>) user pollId option_id st)) =
     votes (snd (post_vote new_id env user pollId option_id st)) \<and>
   polls (snd (post_vote new_id (env\<lparr>db_accepts := False\<rparr>) user pollId option_id st)) =
     polls (snd (post_vote new_id env user pollId option_id st)) \<and>
   users (snd (post_vote new_id (env\<lparr>db_accepts := False\<rparr>) user pollId option_id st)) =
     users (snd (post_vote new_id env user pollId option_id st))"
  by (simp add: post_vote_def Let_def io_to_emit_simps io_emit_simps createNotification_keeps
      split: option.splits prod.splits)

lemma vote_down:
  "\<not> db_accepts env \<Longrightarrow>
   notifs (snd (post_vote new_id env user pollId option_id st)) = notifs st \<and>
   pushes (trace (snd (post_vote new_id env user pollId option_id st))) = pushes (trace st)"
  by (simp add: post_vote_def Let_def io_to_emit_simps io_emit_simps createNotification_down
      split: option.splits prod.splits)

lemma comment_response_env:
  "fst (post_comments new_id (env\<lparr>db_accepts := False\<rparr>) user b st) = fst (post_comments new_id env user b st)"
  by (simp add: post_comments_def Let_def split: option.splits prod.splits)

lemma comment_down:
  "\<not> db_accepts env \<Longrightarrow>
   notifs (snd (post_comments new_id env user b st)) = notifs st \<and>
   pushes (trace (snd (post_comments new_id env user b st))) = pushes (trace st)"
  by (simp add: post_comments_def Let_def io_to_emit_simps createNotification_down
      split: option.splits prod.splits)

lemma like_response_env:
  "fst (post_comment_like (env\<lparr>db_accepts := False\<rparr>) user cid st) = fst (post_comment_like env user cid st)"
  by (simp add: post_comment_like_def Let_def split: option.splits prod.splits)

lemma like_down:
  "\<not> db_accepts env \<Longrightarrow>
   notifs (snd (post_comment_like env user cid st)) = notifs st \<and>
   pushes (trace (snd (post_comment_like env user cid st))) = pushes (trace st)"
  by (simp add: post_comment_like_def Let_def io_to_emit_simps createNotification_down
      split: option.splits prod.splits)

lemma create_response_env:
  "fst (post_polls fresh new_id (env\<lparr>db_accepts := False\<rparr>) user b st) = fst (post_polls fresh new_id env user b st)"
  by (simp add: post_polls_def Let_def split: option.splits prod.splits)

lemma create_down:
  "\<not> db_accepts env \<Longrightarrow>
   notifs (snd (post_polls fresh new_id env user b st)) = notifs st \<and>
   pushes (trace (snd (post_polls fresh new_id env user b st))) = pushes (trace st)"
  by (simp add: post_polls_def Let_def io_emit_simps createNotification_down
      split: option.splits prod.splits)

lemma patch_response_env:
  "fst (patch_poll (env\<lparr>db_accepts := False\<rparr>) user pid status st) = fst (patch_poll env user pid status st)"
  by (simp add: patch_poll_def Let_def split: option.splits prod.splits)

lemma patch_down:
  "\<not> db_accepts env \<Longrightarrow>
   notifs (snd (patch_poll env user pid status st)) = notifs st \<and>
   pushes (trace (snd (patch_poll env user pid status st))) = pushes (trace st)"
  by (simp add: patch_poll_def emit_pollUpdate_def Let_def io_to_emit_simps io_emit_simps
      createNotification_down split: option.splits prod.splits)


lemmas sample_defs = alice_def bob_def poll1_def comment1_def socketA_def server0_def
  server1_def env1_def env_down_def vote_data_def body1_def fresh1_def no_data_def

lemmas service_defs = createNotification_def Notification_save_def insert_doc_def
  notification_valid_def new_Notification_def formatNotificationMessage_def
  getNotificationPriority_def schema_data_def io_to_emit_def io_emit_def room_sockets_def
  accepted_def on_connection_def socket_join_def personal_room_def pushes_def Let_def

text \<open>
  C1 (as the code has it). For a vote, a comment or reply, and a comment like, when the acting user is
  the would-be recipient (the poll's creator, for a like the comment's author) the handler
  stores no notification record and dispatches no \<open>newNotification\<close>.
\<close>

theorem no_self_notification:
  "(find (\<lambda>p. p_id p = pollId) (polls st) = Some the_poll \<and> p_creator the_poll = u_id user \<longrightarrow>
      notifs (snd (post_vote new_id env user pollId option_id st)) = notifs st \<and>
      pushes (trace (snd (post_vote new_id env user pollId option_id st))) = pushes (trace st)) \<and>
   (cb_poll_id b = Some pid \<and> find (\<lambda>p. p_id p = pid) (polls st) = Some the_poll \<and>
    p_creator the_poll = u_id user \<longrightarrow>
      notifs (snd (post_comments new_id env user b st)) = notifs st \<and>
      pushes (trace (snd (post_comments new_id env user b st))) = pushes (trace st)) \<and>
   (find (\<lambda>c. c_id c = cid) (comments st) = Some the_comment \<and> c_user the_comment = u_id user \<longrightarrow>
      notifs (snd (post_comment_like env user cid st)) = notifs st \<and>
      pushes (trace (snd (post_comment_like env user cid st))) = pushes (trace st))"
  using vote_self [of pollId st the_poll user new_id env option_id]
    comment_self [of b pid st the_poll user new_id env]
    like_self [of cid st the_comment user env]
  by blast

theorem no_self_notification_witness:
  "find (\<lambda>p. p_id p = p_id poll1) (polls server1) = Some poll1 \<and>
   p_creator poll1 = u_id alice \<and>
   find (\<lambda>c. c_id c = c_id comment1) (comments server1) = Some comment1 \<and>
   c_user comment1 = u_id alice \<and>
   notifs (snd (post_vote ''1700000000400vote00001'' env1 alice (p_id poll1) (Some ''o1'') server1)) = [] \<and>
   notifs (snd (post_comments ''1700000000500the_comment2'' env1 alice
       \<lparr>cb_poll_id = Some (p_id poll1), cb_content = Some ''Sushi'',
        cb_parent_comment_id = None\<rparr> server1)) = [] \<and>
   notifs (snd (post_comment_like env1 alice (c_id comment1) server1)) = []"
proof -
  let ?b = "\<lparr>cb_poll_id = Some (p_id poll1), cb_content = Some ''Sushi'',
        cb_parent_comment_id = None\<rparr>"
  note t = no_self_notification [where pollId = "p_id poll1" and st = server1
      and the_poll = poll1 and user = alice and env = env1 and option_id = "Some ''o1''"
      and b = ?b and pid = "p_id poll1" and cid = "c_id comment1" and the_comment = comment1]
  have p: "find (\<lambda>p. p_id p = p_id poll1) (polls server1) = Some poll1"
    by (simp add: server1_def)
  have pc: "p_creator poll1 = u_id alice" by (simp add: poll1_def)
  have c: "find (\<lambda>c. c_id c = c_id comment1) (comments server1) = Some comment1"
    by (simp add: server1_def)
  have cu: "c_user comment1 = u_id alice" by (simp add: comment1_def)
  have b: "cb_poll_id ?b = Some (p_id poll1)" by simp
  have none: "notifs server1 = []" by (simp add: server1_def server0_def)
  from t [of "''1700000000400vote00001''"] p pc
  have "notifs (snd (post_vote ''1700000000400vote00001'' env1 alice (p_id poll1)
      (Some ''o1'') server1)) = notifs server1" by blast
  moreover from t [of "''1700000000500the_comment2''"] b p pc
  have "notifs (snd (post_comments ''1700000000500the_comment2'' env1 alice ?b server1)) = notifs server1"
    by blast
  moreover from t [of "[]"] c cu
  have "notifs (snd (post_comment_like env1 alice (c_id comment1) server1)) = notifs server1"
    by blast
  ultimately show ?thesis using p pc c cu none by (simp only: simp_thms)
qed

text \<open>
  C1 as stated fails for poll creation: \<open>alice\<close> creates a poll and the handler stores a
  \<open>poll_created\<close> record addressed to \<open>alice\<close> and pushes it to her personal room, where
  her socket receives it.
\<close>

theorem create_poll_notifies_actor_counterexample:
  "fst (fst (post_polls fresh1 ''1700000000301the_poll0002'' env1 alice body1 server0)) = 201 \<and>
   notifs server0 = [] \<and>
   notifs (snd (post_polls fresh1 ''1700000000301the_poll0002'' env1 alice body1 server0)) =
     [new_Notification env1 ''poll_created''
        (no_data\<lparr>d_pollTitle := Some ''Dinner'', d_pollId := Some ''1700000000301the_poll0002''\<rparr>)
        (u_id alice)] \<and>
   pushes (trace (snd (post_polls fresh1 ''1700000000301the_poll0002'' env1 alice body1 server0))) =
     [Emitted (Room (personal_room (u_id alice))) ''newNotification''
        (PNotification (new_Notification env1 ''poll_created''
           (no_data\<lparr>d_pollTitle := Some ''Dinner'', d_pollId := Some ''1700000000301the_poll0002''\<rparr>)
           (u_id alice)))
        [sock_id socketA]]"
proof -
  have kept: "trim ''Curry'' = ''Curry''" "trim ''Ramen'' = ''Ramen''"
    by (simp_all add: trim_def strip_leading.simps ws_match_def white_space_def)
  show ?thesis
    by (simp add: sample_defs service_defs post_polls_def normalizedOptions_def
        List.map_filter_def enumerate_eq_zip kept status_or_active_def
        poll_valid_def push_polls_created_def)
qed


text \<open>
  C3 (as the code has it). A rejected append does not reach the caller of the triggering operation:
  \<open>createNotification\<close> returns \<open>null\<close> with the state untouched, and each triggering
  handler (vote, comment, like, poll creation, poll status change) gives the response it
  gives when the append is accepted; for a vote the vote, poll and user documents are
  written all the same. What is lost is the notification: no record is stored and no
  \<open>newNotification\<close> is dispatched.
\<close>

theorem append_failure_not_reported:
  "(\<not> db_accepts env \<longrightarrow> createNotification env type data userId st = (None, st)) \<and>
   fst (post_vote new_id (env\<lparr>db_accepts := False\<rparr>) user pollId option_id st) =
     fst (post_vote new_id env user pollId option_id st) \<and>
   votes (snd (post_vote new_id (env\<lparr>db_accepts := False\<rparr>) user pollId option_id st)) =
     votes (snd (post_vote new_id env user pollId option_id st)) \<and>
   polls (snd (post_vote new_id (env\<lparr>db_accepts := False\<rparr>) user pollId option_id st)) =
     polls (snd (post_vote new_id env user pollId option_id st)) \<and>
   users (snd (post_vote new_id (env\<lparr>db_accepts := False\<rparr>) user pollId option_id st)) =
     users (snd (post_vote new_id env user pollId option_id st)) \<and>
   (\<not> db_accepts env \<longrightarrow>
      notifs (snd (post_vote new_id env user pollId option_id st)) = notifs st \<and>
      pushes (trace (snd (post_vote new_id env user pollId option_id st))) = pushes (trace st)) \<and>
   fst (post_comments new_id (env\<lparr>db_accepts := False\<rparr>) user b st) =
     fst (post_comments new_id env user b st) \<and>
   fst (post_comment_like (env\<lparr>db_accepts := False\<rparr>) user cid st) =
     fst (post_comment_like env user cid st) \<and>
   fst (post_polls fresh new_id (env\<lparr>db_accepts := False\<rparr>) user pb st) =
     fst (post_polls fresh new_id env user pb st) \<and>
   fst (patch_poll (env\<lparr>db_accepts := False\<rparr>) user pid status st) =
     fst (patch_poll env user pid status st) \<and>
   (\<not> db_accepts env \<longrightarrow>
      notifs (snd (post_comments new_id env user b st)) = notifs st \<and>
      pushes (trace (snd (post_comments new_id env user b st))) = pushes (trace st) \<and>
      notifs (snd (post_comment_like env user cid st)) = notifs st \<and>
      pushes (trace (snd (post_comment_like env user cid st))) = pushes (trace st) \<and>
      notifs (snd (post_polls fresh new_id env user pb st)) = notifs st \<and>
      pushes (trace (snd (post_polls fresh new_id env user pb st))) = pushes (trace st) \<and>
      notifs (snd (patch_poll env user pid status st)) = notifs st \<and>
      pushes (trace (snd (patch_poll env user pid status st))) = pushes (trace st))"
proof -
  have null: "\<not> db_accepts env \<longrightarrow> createNotification env type data userId st = (None, st)"
    using createNotification_down by blast
  have lost: "\<not> db_accepts env \<longrightarrow>
      notifs (snd (post_vote new_id env user pollId option_id st)) = notifs st \<and>
      pushes (trace (snd (post_vote new_id env user pollId option_id st))) = pushes (trace st)"
    using vote_down by blast
  have others: "\<not> db_accepts env \<longrightarrow>
      notifs (snd (post_comments new_id env user b st)) = notifs st \<and>
      pushes (trace (snd (post_comments new_id env user b st))) = pushes (trace st) \<and>
      notifs (snd (post_comment_like env user cid st)) = notifs st \<and>
      pushes (trace (snd (post_comment_like env user cid st))) = pushes (trace st) \<and>
      notifs (snd (post_polls fresh new_id env user pb st)) = notifs st \<and>
      pushes (trace (snd (post_polls fresh new_id env user pb st))) = pushes (trace st) \<and>
      notifs (snd (patch_poll env user pid status st)) = notifs st \<and>
      pushes (trace (snd (patch_poll env user pid status st))) = pushes (trace st)"
    using comment_down like_down create_down patch_down by blast
  from null lost others vote_response_env [of new_id env user pollId option_id st]
    vote_recorded_env [of new_id env user pollId option_id st]
    comment_response_env [of new_id env user b st]
    like_response_env [of env user cid st]
    create_response_env [of fresh new_id env user pb st]
    patch_response_env [of env user pid status st]
  show ?thesis by (simp only: simp_thms)
qed

theorem append_failure_not_reported_witness:
  "\<not> db_accepts env_down \<and>
   createNotification env_down ''vote'' vote_data (u_id alice) server1 = (None, server1) \<and>
   notifs (snd (post_vote ''1700000000400vote00001'' env_down bob (p_id poll1) (Some ''o1'') server1)) = [] \<and>
   pushes (trace (snd (post_vote ''1700000000400vote00001'' env_down bob (p_id poll1) (Some ''o1'') server1))) = [] \<and>
   fst (post_vote ''1700000000400vote00001'' env_down bob (p_id poll1) (Some ''o1'') server1) =
     fst (post_vote ''1700000000400vote00001'' env1 bob (p_id poll1) (Some ''o1'') server1)"
proof -
  note t = append_failure_not_reported [where env = env_down and st = server1
      and type = "''vote''" and data = vote_data and userId = "u_id alice"
      and new_id = "''1700000000400vote00001''" and user = bob and pollId = "p_id poll1"
      and option_id = "Some ''o1''"]
  note u = append_failure_not_reported [where env = env1 and st = server1
      and new_id = "''1700000000400vote00001''" and user = bob and pollId = "p_id poll1"
      and option_id = "Some ''o1''"]
  have down: "\<not> db_accepts env_down" by (simp add: env_down_def)
  have same: "env1\<lparr>db_accepts := False\<rparr> = env_down" by (simp add: env_down_def)
  have empty: "notifs server1 = []" "pushes (trace server1) = []"
    by (simp_all add: server1_def server0_def pushes_def)
  from t down have "createNotification env_down ''vote'' vote_data (u_id alice) server1 = (None, server1)"
    by blast
  moreover from t down empty
  have "notifs (snd (post_vote ''1700000000400vote00001'' env_down bob (p_id poll1) (Some ''o1'') server1)) = []"
    "pushes (trace (snd (post_vote ''1700000000400vote00001'' env_down bob (p_id poll1) (Some ''o1'') server1))) = []"
    by simp_all
  moreover from u same
  have "fst (post_vote ''1700000000400vote00001'' env_down bob (p_id poll1) (Some ''o1'') server1) =
     fst (post_vote ''1700000000400vote00001'' env1 bob (p_id poll1) (Some ''o1'') server1)"
    by simp
  ultimately show ?thesis using down by (simp only: simp_thms)
qed

text \<open>
  C3 as stated fails: \<open>bob\<close> votes on \<open>alice\<close>'s poll while the database rejects the
  notification. The append fails, yet the response is 200 \<open>Vote recorded successfully\<close>,
  the vote is stored and counted, and no notification exists.
\<close>

theorem vote_succeeds_when_append_fails_counterexample:
  "\<not> db_accepts env_down \<and>
   fst (post_vote ''1700000000400vote00001'' env_down bob (p_id poll1) (Some ''o1'') server1) =
     (200, MessagePoll ''Vote recorded successfully''
        (poll1\<lparr>p_options := [\<lparr>o_id = ''o1'', o_text = ''Pizza'', o_votes = 1\<rparr>,
                               \<lparr>o_id = ''o2'', o_text = ''Sushi'', o_votes = 0\<rparr>],
               p_total_votes := 1\<rparr>)) \<and>
   map v_user (votes (snd (post_vote ''1700000000400vote00001'' env_down bob (p_id poll1)
       (Some ''o1'') server1))) = [u_id bob] \<and>
   notifs (snd (post_vote ''1700000000400vote00001'' env_down bob (p_id poll1)
       (Some ''o1'') server1)) = []"
  by (simp add: sample_defs service_defs post_vote_def vote_valid_def
      addToSet_polls_voted_def replace_doc_def)

end
